theory Spec2Isabelle
  imports Complex_Main "HOL-Library.Char_ord" "HOL-Library.List_Lexorder"
begin

section \<open>Python values used by the report generator\<close>

text \<open>
  A Python \<open>str\<close> is modelled as a \<open>string\<close> holding its UTF-8 encoding; the
  characters of the source text that lie outside ASCII are named constants holding
  their bytes. The built-in string methods (\<open>strip\<close>, \<open>isdigit\<close>, \<open>lower\<close>) are
  modelled on ASCII text, \<open>lower\<close> also on the accented capitals of Portuguese.
  Python numbers read from JSON are exact rationals here: binary floating-point
  rounding is outside the model.
\<close>

definition u_a_acute :: string where \<comment> \<open>U+00E1\<close>
  "u_a_acute = [CHR 0xC3, CHR 0xA1]"

definition u_a_circumflex :: string where \<comment> \<open>U+00E2\<close>
  "u_a_circumflex = [CHR 0xC3, CHR 0xA2]"

definition u_a_tilde :: string where \<comment> \<open>U+00E3\<close>
  "u_a_tilde = [CHR 0xC3, CHR 0xA3]"

definition u_c_cedilla :: string where \<comment> \<open>U+00E7\<close>
  "u_c_cedilla = [CHR 0xC3, CHR 0xA7]"

definition u_e_acute :: string where \<comment> \<open>U+00E9\<close>
  "u_e_acute = [CHR 0xC3, CHR 0xA9]"

definition u_e_circumflex :: string where \<comment> \<open>U+00EA\<close>
  "u_e_circumflex = [CHR 0xC3, CHR 0xAA]"

definition u_i_acute :: string where \<comment> \<open>U+00ED\<close>
  "u_i_acute = [CHR 0xC3, CHR 0xAD]"

definition u_o_acute :: string where \<comment> \<open>U+00F3\<close>
  "u_o_acute = [CHR 0xC3, CHR 0xB3]"

definition u_o_circumflex :: string where \<comment> \<open>U+00F4\<close>
  "u_o_circumflex = [CHR 0xC3, CHR 0xB4]"

definition u_u_acute :: string where \<comment> \<open>U+00FA\<close>
  "u_u_acute = [CHR 0xC3, CHR 0xBA]"

definition u_cap_o_acute :: string where \<comment> \<open>U+00D3\<close>
  "u_cap_o_acute = [CHR 0xC3, CHR 0x93]"

definition u_cap_a_acute :: string where \<comment> \<open>U+00C1\<close>
  "u_cap_a_acute = [CHR 0xC3, CHR 0x81]"

definition u_ordinal :: string where \<comment> \<open>U+00BA\<close>
  "u_ordinal = [CHR 0xC2, CHR 0xBA]"

definition u_books :: string where \<comment> \<open>U+1F4DA\<close>
  "u_books = [CHR 0xF0, CHR 0x9F, CHR 0x93, CHR 0x9A]"

definition u_calendar :: string where \<comment> \<open>U+1F4C5\<close>
  "u_calendar = [CHR 0xF0, CHR 0x9F, CHR 0x93, CHR 0x85]"

definition u_cross_mark :: string where \<comment> \<open>U+274C\<close>
  "u_cross_mark = [CHR 0xE2, CHR 0x9D, CHR 0x8C]"

definition u_round_pushpin :: string where \<comment> \<open>U+1F4CD\<close>
  "u_round_pushpin = [CHR 0xF0, CHR 0x9F, CHR 0x93, CHR 0x8D]"

definition u_school :: string where \<comment> \<open>U+1F3EB\<close>
  "u_school = [CHR 0xF0, CHR 0x9F, CHR 0x8F, CHR 0xAB]"

definition u_warning_sign :: string where \<comment> \<open>U+26A0 U+FE0F\<close>
  "u_warning_sign = [CHR 0xE2, CHR 0x9A, CHR 0xA0, CHR 0xEF, CHR 0xB8, CHR 0x8F]"

definition u_white_heavy_check_mark :: string where \<comment> \<open>U+2705\<close>
  "u_white_heavy_check_mark = [CHR 0xE2, CHR 0x9C, CHR 0x85]"

definition u_medium_white_circle :: string where \<comment> \<open>U+26AA\<close>
  "u_medium_white_circle = [CHR 0xE2, CHR 0x9A, CHR 0xAA]"

definition u_large_red_circle :: string where \<comment> \<open>U+1F534\<close>
  "u_large_red_circle = [CHR 0xF0, CHR 0x9F, CHR 0x94, CHR 0xB4]"

definition u_large_green_circle :: string where \<comment> \<open>U+1F7E2\<close>
  "u_large_green_circle = [CHR 0xF0, CHR 0x9F, CHR 0x9F, CHR 0xA2]"

definition u_large_yellow_circle :: string where \<comment> \<open>U+1F7E1\<close>
  "u_large_yellow_circle = [CHR 0xF0, CHR 0x9F, CHR 0x9F, CHR 0xA1]"

subsection \<open>String methods\<close>

definition py_isspace :: "char \<Rightarrow> bool" where
  \<comment> \<open>the ASCII characters for which \<open>str.isspace\<close> holds\<close>
  "py_isspace c = (c \<in> set [CHR 0x09, CHR 0x0A, CHR 0x0B, CHR 0x0C, CHR 0x0D,
                              CHR 0x1C, CHR 0x1D, CHR 0x1E, CHR 0x1F, CHR 0x20])"

definition py_strip :: "string \<Rightarrow> string" where
  "py_strip s = rev (dropWhile py_isspace (rev (dropWhile py_isspace s)))"

definition py_isdigit :: "string \<Rightarrow> bool" where
  \<comment> \<open>\<open>str.isdigit\<close>: at least one character, and every character a digit\<close>
  "py_isdigit s = (s \<noteq> [] \<and> list_all (\<lambda>c. c \<in> set ''0123456789'') s)"

fun py_lower :: "string \<Rightarrow> string" where
  "py_lower [] = []"
| "py_lower [c] =
     [if CHR ''A'' \<le> c \<and> c \<le> CHR ''Z'' then char_of (of_char c + (32::nat)) else c]"
| "py_lower (c # d # s) =
     (if c = CHR 0xC3 \<and> CHR 0x80 \<le> d \<and> d \<le> CHR 0x9E \<and> d \<noteq> CHR 0x97
      then c # char_of (of_char d + (32::nat)) # py_lower s
      else (if CHR ''A'' \<le> c \<and> c \<le> CHR ''Z'' then char_of (of_char c + (32::nat)) else c)
           # py_lower (d # s))"

fun py_in :: "string \<Rightarrow> string \<Rightarrow> bool" where
  \<comment> \<open>\<open>sub in s\<close> on strings\<close>
  "py_in sub [] = (sub = [])"
| "py_in sub (c # s) = (take (length sub) (c # s) = sub \<or> py_in sub s)"

fun py_replace :: "string \<Rightarrow> string \<Rightarrow> string \<Rightarrow> string" where
  \<comment> \<open>\<open>s.replace(old, new)\<close> for a non-empty \<open>old\<close>; the arguments are \<open>old\<close>, \<open>new\<close>, \<open>s\<close>\<close>
  "py_replace old new [] = []"
| "py_replace old new (c # s) =
     (if old \<noteq> [] \<and> take (length old) (c # s) = old
      then new @ py_replace old new (drop (length old) (c # s))
      else c # py_replace old new s)"


subsection \<open>Fixed-point formatting of numbers\<close>

fun digits10 :: "nat \<Rightarrow> string" where
  "digits10 n = (if n < 10 then [''0123456789'' ! n]
                 else digits10 (n div 10) @ [''0123456789'' ! (n mod 10)])"

declare digits10.simps [simp del]

definition round_half_even :: "rat \<Rightarrow> int" where
  "round_half_even x =
     (let f = \<lfloor>x\<rfloor>; r = x - of_int f
      in if r < 1 / 2 then f else if 1 / 2 < r then f + 1
         else if even f then f else f + 1)"

definition fmt_f :: "nat \<Rightarrow> rat \<Rightarrow> string" where
  \<comment> \<open>the format specification \<open>:.df\<close>\<close>
  "fmt_f d x =
     (let n = nat (round_half_even (\<bar>x\<bar> * 10 ^ d));
          frac = digits10 (n mod 10 ^ d)
      in (if x < 0 then ''-'' else '''') @ digits10 (n div 10 ^ d)
         @ (if d = 0 then '''' else ''.'' @ replicate (d - length frac) (CHR ''0'') @ frac))"

definition fmt_plus_f :: "nat \<Rightarrow> rat \<Rightarrow> string" where
  \<comment> \<open>the format specification \<open>:+.df\<close>\<close>
  "fmt_plus_f d x = (if x < 0 then '''' else ''+'') @ fmt_f d x"

section \<open>Formatting helpers (gerador.py)\<close>

definition pct :: "rat option \<Rightarrow> string" where
  "pct v = (case v of None \<Rightarrow> ''sem dados''
            | Some x \<Rightarrow> fmt_f 1 (if \<bar>x\<bar> \<le> 101 / 100 then x * 100 else x) @ ''%'')"

definition pp :: "rat option \<Rightarrow> nat \<Rightarrow> string" where
  "pp v decimais = (case v of None \<Rightarrow> ''sem dados''
            | Some x \<Rightarrow> fmt_plus_f decimais (if \<bar>x\<bar> \<le> 101 / 100 then x * 100 else x) @ ''pp'')"


definition safe_taxa :: "rat option \<Rightarrow> string" where
  "safe_taxa v = (case v of None \<Rightarrow> ''sem dados''
            | Some x \<Rightarrow> fmt_f 1 (if \<bar>x\<bar> \<le> 101 / 100 then x * 100 else x) @ ''%'')"

definition classificar_desempenho :: "rat option \<Rightarrow> string \<times> string" where
  "classificar_desempenho pct_adequado =
     (case pct_adequado of
        None \<Rightarrow> (''Dados n'' @ u_a_tilde @ ''o dispon'' @ u_i_acute @ ''veis'',
                 u_medium_white_circle)
      | Some x \<Rightarrow>
          (let p = (if x \<le> 1 then x * 100 else x)
           in if 70 \<le> p then (''Bom desempenho'', u_white_heavy_check_mark)
              else if 50 \<le> p then (''Desempenho intermedi'' @ u_a_acute @ ''rio'', u_warning_sign)
              else (''Desempenho cr'' @ u_i_acute @ ''tico - oportunidade de atua''
                      @ u_c_cedilla @ u_a_tilde @ ''o'', u_large_red_circle)))"

definition classificar_taxa :: "rat option \<Rightarrow> string \<Rightarrow> string \<times> string" where
  "classificar_taxa valor tipo =
     (case valor of
        None \<Rightarrow> (''Sem dados'', u_medium_white_circle)
      | Some x \<Rightarrow>
          (let v = (if \<bar>x\<bar> \<le> 101 / 100 then x * 100 else x)
           in if tipo = ''aprovacao'' then
                (if 98 \<le> v then (''Excelente'', u_white_heavy_check_mark)
                 else if 95 \<le> v then (''Bom'', u_large_green_circle)
                 else if 90 \<le> v then (''Regular'', u_large_yellow_circle)
                 else (''Cr'' @ u_i_acute @ ''tico'', u_large_red_circle))
              else if tipo = ''reprovacao'' then
                (if v \<le> 1 then (''Excelente'', u_white_heavy_check_mark)
                 else if v \<le> 3 then (''Bom'', u_large_green_circle)
                 else if v \<le> 5 then (''Regular'', u_large_yellow_circle)
                 else (''Cr'' @ u_i_acute @ ''tico'', u_large_red_circle))
              else
                (if v \<le> 1 / 2 then (''Excelente'', u_white_heavy_check_mark)
                 else if v \<le> 3 / 2 then (''Bom'', u_large_green_circle)
                 else if v \<le> 3 then (''Regular'', u_large_yellow_circle)
                 else (''Cr'' @ u_i_acute @ ''tico'', u_large_red_circle))))"


definition normalizar_pct :: "rat \<Rightarrow> rat" where
  \<comment> \<open>the convention in the words of the specification: a value whose absolute value
      is at most 1.01 is multiplied by 100, any other is used as it is\<close>
  "normalizar_pct x = (if \<bar>x\<bar> \<le> 101 / 100 then x * 100 else x)"

section \<open>JSON values, exceptions and the fetch cache (gerador.py)\<close>

datatype json = JNull | JBool bool | JInt int | JFloat rat | JStr string
  | JList "json list" | JDict "(string \<times> json) list"

text \<open>
  An exception is its class and its message. Every exception of the model is a
  subclass of Python's \<open>Exception\<close>, so \<open>except Exception\<close> catches it.
\<close>

datatype exn = Exn string string

fun truthy :: "json \<Rightarrow> bool" where
  "truthy JNull = False"
| "truthy (JBool b) = b"
| "truthy (JInt i) = (i \<noteq> 0)"
| "truthy (JFloat q) = (q \<noteq> 0)"
| "truthy (JStr s) = (s \<noteq> [])"
| "truthy (JList xs) = (xs \<noteq> [])"
| "truthy (JDict kvs) = (kvs \<noteq> [])"

fun type_name :: "json \<Rightarrow> string" where
  "type_name JNull = ''NoneType''"
| "type_name (JBool b) = ''bool''"
| "type_name (JInt i) = ''int''"
| "type_name (JFloat q) = ''float''"
| "type_name (JStr s) = ''str''"
| "type_name (JList xs) = ''list''"
| "type_name (JDict kvs) = ''dict''"

definition dget :: "(string \<times> json) list \<Rightarrow> string \<Rightarrow> json \<Rightarrow> json" where
  \<comment> \<open>\<open>d.get(k, default)\<close> on a dict\<close>
  "dget kvs k dflt = (case map_of kvs k of Some v \<Rightarrow> v | None \<Rightarrow> dflt)"

definition py_get :: "json \<Rightarrow> string \<Rightarrow> json \<Rightarrow> exn + json" where
  \<comment> \<open>\<open>x.get(k, default)\<close> on any value: only a dict has the method\<close>
  "py_get x k dflt =
     (case x of
        JDict kvs \<Rightarrow> Inr (dget kvs k dflt)
      | _ \<Rightarrow> Inl (Exn ''AttributeError''
                 ([CHR 0x27] @ type_name x @ [CHR 0x27] @ '' object has no attribute ''
                  @ [CHR 0x27] @ ''get'' @ [CHR 0x27])))"

definition py_iter :: "json \<Rightarrow> exn + json list" where
  \<comment> \<open>the values a \<open>for\<close> loop over \<open>x\<close> visits\<close>
  "py_iter x =
     (case x of
        JList xs \<Rightarrow> Inr xs
      | JDict kvs \<Rightarrow> Inr (map (\<lambda>kv. JStr (fst kv)) kvs)
      | JStr s \<Rightarrow> Inr (map (\<lambda>c. JStr [c]) s)
      | _ \<Rightarrow> Inl (Exn ''TypeError''
                 ([CHR 0x27] @ type_name x @ [CHR 0x27] @ '' object is not iterable'')))"

definition py_or :: "json \<Rightarrow> json \<Rightarrow> json" where
  "py_or a b = (if truthy a then a else b)"

fun num_of :: "json \<Rightarrow> rat option" where
  \<comment> \<open>the numeric value of a number (\<open>bool\<close> is a subclass of \<open>int\<close>)\<close>
  "num_of (JInt i) = Some (of_int i)"
| "num_of (JFloat q) = Some q"
| "num_of (JBool b) = Some (if b then 1 else 0)"
| "num_of _ = None"

datatype pval = PInt int | PStr string

type_synonym params = "(string \<times> pval) list"

type_synonym request = "string \<times> params"

datatype reply = Failure | Reply json

text \<open>
  The world a run acts on: the module-level dict \<open>_FETCH_CACHE\<close> and the log of the
  HTTP requests issued so far. The network is a function of the position of a request
  in that log, so a reply may change from one attempt to the next; \<open>Failure\<close> stands
  for any exception raised by \<open>requests.get\<close>, \<open>raise_for_status\<close> or \<open>r.json()\<close>.
\<close>

record world =
  cache :: "request \<rightharpoonup> json"
  sent :: "request list"

type_synonym network = "nat \<Rightarrow> request \<Rightarrow> reply"

definition clear_cache :: "world \<Rightarrow> world" where
  "clear_cache w = w\<lparr>cache := Map.empty\<rparr>"

definition cache_key :: "string \<Rightarrow> params \<Rightarrow> request" where
  \<comment> \<open>\<open>(url, tuple(sorted((params or {}).items())))\<close>: the keys of a dict are distinct,
      so the order of the items is the order of their keys\<close>
  "cache_key url ps = (url, sort_key fst ps)"

fun fetch_attempts :: "network \<Rightarrow> request \<Rightarrow> request \<Rightarrow> nat \<Rightarrow> world \<Rightarrow> json \<times> world" where
  \<comment> \<open>the \<open>for i in range(tentativas)\<close> loop with the attempts that remain; the last
      attempt is the one with \<open>i == tentativas - 1\<close>\<close>
  "fetch_attempts nw key rq 0 w = (JNull, w)"
| "fetch_attempts nw key rq (Suc k) w =
     (let w1 = w\<lparr>sent := sent w @ [rq]\<rparr>
      in case nw (length (sent w)) rq of
           Reply result \<Rightarrow> (result, w1\<lparr>cache := (cache w1)(key \<mapsto> result)\<rparr>)
         | Failure \<Rightarrow>
             if k = 0 then (JNull, w1\<lparr>cache := (cache w1)(key \<mapsto> JNull)\<rparr>)
             else fetch_attempts nw key rq k w1)"

definition fetch_json :: "network \<Rightarrow> string \<Rightarrow> params \<Rightarrow> nat \<Rightarrow> world \<Rightarrow> json \<times> world" where
  "fetch_json nw url ps tentativas w =
     (let key = cache_key url ps
      in case cache w key of
           Some result \<Rightarrow> (result, w)
         | None \<Rightarrow> fetch_attempts nw key (url, ps) tentativas w)"

fun run_fetches :: "network \<Rightarrow> (string \<times> params \<times> nat) list \<Rightarrow> world \<Rightarrow> world" where
  \<comment> \<open>any further calls of \<open>fetch_json\<close> within the same run\<close>
  "run_fetches nw [] w = w"
| "run_fetches nw ((url, ps, t) # calls) w = run_fetches nw calls (snd (fetch_json nw url ps t w))"

subsection \<open>Candidate years\<close>

definition anos_candidatos :: "int \<Rightarrow> nat \<Rightarrow> int list" where
  "anos_candidatos ano_atual n = map (\<lambda>i. ano_atual - int i) [0..<n]"

definition anos_saeb :: "int \<Rightarrow> int list" where
  "anos_saeb ano_atual =
     (let a = (if ano_atual mod 2 = 1 then ano_atual else ano_atual - 1)
      in map (\<lambda>i. a - 2 * int i) [0..<5])"

definition anos_a_tentar :: "int \<Rightarrow> int option \<Rightarrow> int list" where
  \<comment> \<open>\<open>[ano] if ano else _anos_candidatos()\<close>\<close>
  "anos_a_tentar ano_atual ano =
     (case ano of
        Some a \<Rightarrow> if a \<noteq> 0 then [a] else anos_candidatos ano_atual 6
      | None \<Rightarrow> anos_candidatos ano_atual 6)"

definition BASE_URL :: string where
  "BASE_URL = ''https://qedu.org.br/api/v1''"

subsection \<open>The environment of a run\<close>

text \<open>
  A row of the two IDEB reference tables (\<open>dados/ideb_saeb_*.csv\<close>, which are not in
  the repository's source) with the columns the code reads; \<open>csv_valor\<close> is \<open>None\<close>
  where \<open>pd.to_numeric\<close> gives NaN.
\<close>

record ideb_row =
  csv_codigo_ibge :: string
  csv_municipio :: string
  csv_uf :: string
  csv_esfera :: string
  csv_segmento :: string
  csv_tipo_nome :: string
  csv_ano :: int
  csv_valor :: "rat option"

text \<open>
  What a run reads from outside: the network, the year and the clock at import and call
  time, and the reference tables (\<open>None\<close>: the file does not exist). The long passages
  of the renderers that only format data already fetched (floating-point tables and
  comments on them) are fields of the environment too: each is a pure function of the
  fetched data that returns its text or raises. The lines of \<open>gerador.py\<close> they stand
  for are given with each field.
\<close>

record env =
  env_net :: network
  env_ano_atual :: int  \<comment> \<open>\<open>ANO_ATUAL\<close>\<close>
  env_agora :: string  \<comment> \<open>\<open>datetime.now().strftime('%d/%m/%Y %H:%M')\<close>\<close>
  env_repr :: "json \<Rightarrow> string"  \<comment> \<open>\<open>str(x)\<close> of a float, a list or a dict\<close>
  env_mun_csv :: "ideb_row list option"  \<comment> \<open>\<open>IDEB_MUN_CSV\<close>\<close>
  env_uf_csv :: "ideb_row list option"  \<comment> \<open>\<open>IDEB_UF_CSV\<close>\<close>
  env_bloco_aprendizado ::
    "string \<Rightarrow> string \<Rightarrow> json list \<Rightarrow> json list \<Rightarrow> json list \<Rightarrow> exn + string"
    \<comment> \<open>lines 508-736: the block of one cycle, from \<open>cid\<close>, \<open>mun\<close> and the three record lists\<close>
  env_corpo_infra :: "string \<Rightarrow> json \<Rightarrow> int \<Rightarrow> exn + string"
    \<comment> \<open>lines 761-881, from \<open>mun\<close>, \<open>dados\<close> and \<open>ano\<close>\<close>
  env_corpo_censo :: "string \<Rightarrow> json \<Rightarrow> int \<Rightarrow> exn + string"
    \<comment> \<open>lines 899-994, from \<open>mun\<close>, \<open>dados\<close> and \<open>ano\<close>\<close>
  env_secao_ideb ::
    "string \<Rightarrow> ideb_row list \<Rightarrow> ideb_row list option \<Rightarrow> ideb_row list \<Rightarrow> exn + string"
    \<comment> \<open>lines 1051-1238: the text of one \<open>esfera\<close>, from \<open>df_esf\<close>, \<open>df_uf\<close> and the
        state table behind \<open>brasil_stats\<close>\<close>
  env_etapa_taxa :: "string \<Rightarrow> json \<Rightarrow> json \<Rightarrow> exn + json"
    \<comment> \<open>lines 1322-1328: the entry of \<open>etapas_dados\<close> for one cycle\<close>
  env_corpo_taxa :: "string \<Rightarrow> (string \<times> json) list \<Rightarrow> json \<Rightarrow> exn + string"
    \<comment> \<open>lines 1334-1587, from \<open>mun\<close>, \<open>etapas_dados\<close> and \<open>ano_ref\<close>\<close>
  env_est_ciclo :: "json list \<Rightarrow> json list \<Rightarrow> exn + json"
    \<comment> \<open>lines 1608-1623: \<open>ciclo_d\<close> from \<open>mun_recs\<close> and \<open>br_recs\<close>\<close>
  env_est_censo :: "json \<Rightarrow> int \<Rightarrow> exn + json"
    \<comment> \<open>lines 1632-1640: \<open>censo_d\<close>\<close>
  env_est_infra :: "json \<Rightarrow> int \<Rightarrow> exn + json"
    \<comment> \<open>lines 1647-1658: \<open>infra_d\<close>\<close>
  env_est_taxa :: "string \<Rightarrow> json \<Rightarrow> json \<Rightarrow> exn + json option"
    \<comment> \<open>lines 1666-1674: the entry of \<open>taxa_d\<close> for one cycle, if there is a last record\<close>

subsection \<open>Fetching with a fallback over the years\<close>

definition censo_params :: "string \<Rightarrow> int \<Rightarrow> int \<Rightarrow> int \<Rightarrow> int \<Rightarrow> params" where
  "censo_params ibge a dep_id loc oferta =
     [(''ibge_id'', PStr ibge), (''ano'', PInt a), (''dependencia_id'', PInt dep_id),
      (''localizacao_id'', PInt loc), (''oferta_id'', PInt oferta)]"

definition censo_nao_vazio :: "json \<Rightarrow> exn + bool" where
  \<comment> \<open>\<open>d and d.get("censo")\<close>\<close>
  "censo_nao_vazio d =
     (if truthy d then (case py_get d ''censo'' JNull of
                          Inl x \<Rightarrow> Inl x
                        | Inr c \<Rightarrow> Inr (truthy c))
      else Inr False)"

fun fetch_censo_anos ::
  "network \<Rightarrow> string \<Rightarrow> int \<Rightarrow> int \<Rightarrow> int \<Rightarrow> int list \<Rightarrow> world \<Rightarrow> (exn + json \<times> int) \<times> world" where
  "fetch_censo_anos nw ibge dep_id loc oferta [] w = (Inr (JNull, 0), w)"
| "fetch_censo_anos nw ibge dep_id loc oferta (a # anos) w =
     (case fetch_json nw (BASE_URL @ ''/censo/territorios/matriculas'')
             (censo_params ibge a dep_id loc oferta) 3 w of
        (d, w1) \<Rightarrow>
          (case censo_nao_vazio d of
             Inl x \<Rightarrow> (Inl x, w1)
           | Inr True \<Rightarrow> (Inr (d, a), w1)
           | Inr False \<Rightarrow> fetch_censo_anos nw ibge dep_id loc oferta anos w1))"

definition fetch_censo ::
  "env \<Rightarrow> string \<Rightarrow> int \<Rightarrow> int option \<Rightarrow> int \<Rightarrow> int \<Rightarrow> world \<Rightarrow> (exn + json \<times> int) \<times> world" where
  "fetch_censo e ibge dep_id ano loc oferta w =
     fetch_censo_anos (env_net e) ibge dep_id loc oferta (anos_a_tentar (env_ano_atual e) ano) w"

fun items_com_values :: "json list \<Rightarrow> exn + bool" where
  \<comment> \<open>the inner loop of \<open>fetch_infra\<close>: is there an item with \<open>it.get("values")\<close>\<close>
  "items_com_values [] = Inr False"
| "items_com_values (it # its) =
     (case py_get it ''values'' JNull of
        Inl x \<Rightarrow> Inl x
      | Inr v \<Rightarrow> if truthy v then Inr True else items_com_values its)"

fun secoes_com_values :: "json list \<Rightarrow> exn + bool" where
  "secoes_com_values [] = Inr False"
| "secoes_com_values (s # ss) =
     (case py_get s ''items'' (JList []) of
        Inl x \<Rightarrow> Inl x
      | Inr items \<Rightarrow>
          (case py_iter items of
             Inl x \<Rightarrow> Inl x
           | Inr its \<Rightarrow>
               (case items_com_values its of
                  Inl x \<Rightarrow> Inl x
                | Inr True \<Rightarrow> Inr True
                | Inr False \<Rightarrow> secoes_com_values ss)))"

definition infra_nao_vazio :: "json \<Rightarrow> exn + bool" where
  \<comment> \<open>\<open>d and isinstance(d, list)\<close> and some item of some section has values\<close>
  "infra_nao_vazio d = (case d of JList secs \<Rightarrow> secoes_com_values secs | _ \<Rightarrow> Inr False)"

definition infra_params :: "int \<Rightarrow> int \<Rightarrow> params" where
  "infra_params dep_id a = [(''dependencia_id'', PInt dep_id), (''ano'', PInt a)]"

fun fetch_infra_anos ::
  "network \<Rightarrow> string \<Rightarrow> int \<Rightarrow> int list \<Rightarrow> world \<Rightarrow> (exn + json \<times> int) \<times> world" where
  "fetch_infra_anos nw ibge dep_id [] w = (Inr (JNull, 0), w)"
| "fetch_infra_anos nw ibge dep_id (a # anos) w =
     (case fetch_json nw (BASE_URL @ ''/infra/'' @ ibge @ ''/comparativo'')
             (infra_params dep_id a) 3 w of
        (d, w1) \<Rightarrow>
          (case infra_nao_vazio d of
             Inl x \<Rightarrow> (Inl x, w1)
           | Inr True \<Rightarrow> (Inr (d, a), w1)
           | Inr False \<Rightarrow> fetch_infra_anos nw ibge dep_id anos w1))"

definition fetch_infra ::
  "env \<Rightarrow> string \<Rightarrow> int \<Rightarrow> int option \<Rightarrow> world \<Rightarrow> (exn + json \<times> int) \<times> world" where
  "fetch_infra e ibge dep_id ano w =
     fetch_infra_anos (env_net e) ibge dep_id (anos_a_tentar (env_ano_atual e) ano) w"

definition fetch_aprendizado :: "env \<Rightarrow> string \<Rightarrow> int \<Rightarrow> string \<Rightarrow> world \<Rightarrow> json \<times> world" where
  "fetch_aprendizado e ibge dep_id ciclo w =
     fetch_json (env_net e) (BASE_URL @ ''/aprendizado/'' @ ibge @ ''/ultimos-comparativo'')
       [(''dependencia_id'', PInt dep_id), (''ciclo_id'', PStr ciclo)] 3 w"

definition normalizar_taxa_keys :: "(string \<times> json) list \<Rightarrow> (string \<times> json) list" where
  \<comment> \<open>\<open>_normalizar_taxa_keys\<close> on a dict (its only use)\<close>
  "normalizar_taxa_keys d =
     [(''municipio'', py_or (dget d ''entidade'' JNull) (py_or (dget d ''municipio'' JNull) (JList []))),
      (''estado'', py_or (dget d ''parent'' JNull) (py_or (dget d ''estado'' JNull) (JList []))),
      (''brasil'', py_or (dget d ''brasil'' JNull) (JList []))]"

definition taxa_nao_vazio :: "json \<Rightarrow> exn + bool" where
  \<comment> \<open>\<open>d and (d.get("entidade") or d.get("municipio") or d.get("brasil"))\<close>\<close>
  "taxa_nao_vazio d =
     (if truthy d then
        (case d of
           JDict kvs \<Rightarrow> Inr (truthy (dget kvs ''entidade'' JNull) \<or> truthy (dget kvs ''municipio'' JNull)
                              \<or> truthy (dget kvs ''brasil'' JNull))
         | _ \<Rightarrow> (case py_get d ''entidade'' JNull of Inl x \<Rightarrow> Inl x | Inr v \<Rightarrow> Inr False))
      else Inr False)"

definition gt_num :: "json \<Rightarrow> json \<Rightarrow> exn + bool" where
  \<comment> \<open>\<open>x > y\<close> where \<open>y\<close> is a number: any \<open>x\<close> that is not a number raises\<close>
  "gt_num x y =
     (case (num_of x, num_of y) of
        (Some a, Some b) \<Rightarrow> Inr (b < a)
      | _ \<Rightarrow> Inl (Exn ''TypeError''
                 ([CHR 0x27] @ ''>'' @ [CHR 0x27] @ '' not supported between instances of ''
                  @ [CHR 0x27] @ type_name x @ [CHR 0x27] @ '' and ''
                  @ [CHR 0x27] @ type_name y @ [CHR 0x27])))"

fun ano_real_regs :: "json list \<Rightarrow> json \<Rightarrow> exn + json" where
  \<comment> \<open>the loop over the records of one list: \<open>ano_real\<close> becomes the largest year seen\<close>
  "ano_real_regs [] ano_real = Inr ano_real"
| "ano_real_regs (r # rs) ano_real =
     (case py_get r ''ano'' JNull of
        Inl x \<Rightarrow> Inl x
      | Inr ra \<Rightarrow>
          if truthy ra then
            (case gt_num ra ano_real of
               Inl x \<Rightarrow> Inl x
             | Inr b \<Rightarrow> ano_real_regs rs (if b then ra else ano_real))
          else ano_real_regs rs ano_real)"

fun ano_real_valores :: "json list \<Rightarrow> json \<Rightarrow> exn + json" where
  \<comment> \<open>the loop over \<open>norm.values()\<close>\<close>
  "ano_real_valores [] ano_real = Inr ano_real"
| "ano_real_valores (regs # vs) ano_real =
     (case regs of
        JList rs \<Rightarrow> (case ano_real_regs rs ano_real of
                       Inl x \<Rightarrow> Inl x
                     | Inr a \<Rightarrow> ano_real_valores vs a)
      | _ \<Rightarrow> ano_real_valores vs ano_real)"

definition taxa_params :: "int \<Rightarrow> int \<Rightarrow> string \<Rightarrow> int \<Rightarrow> params" where
  "taxa_params dep_id a ciclo loc =
     [(''dependencia_id'', PInt dep_id), (''ano'', PInt a), (''ciclo_id'', PStr ciclo),
      (''localizacao_id'', PInt loc)]"

definition taxa_url :: "string \<Rightarrow> string" where
  "taxa_url ibge = BASE_URL @ ''/taxa-rendimento/taxa-rendimento/'' @ ibge @ ''/comparacao''"

definition taxa_resultado :: "json \<Rightarrow> int \<Rightarrow> exn + json \<times> json" where
  \<comment> \<open>what \<open>fetch_taxa\<close> returns for a non-empty reply \<open>d\<close> to the request for year \<open>a\<close>:
      the normalised dict, and the latest year of its records or else \<open>a\<close>\<close>
  "taxa_resultado d a =
     (case d of
        JDict kvs \<Rightarrow>
          (let norm = normalizar_taxa_keys kvs
           in case ano_real_valores (map snd norm) (JInt 0) of
                Inl x \<Rightarrow> Inl x
              | Inr ano_real \<Rightarrow> Inr (JDict norm, if truthy ano_real then ano_real else JInt a))
      | _ \<Rightarrow> Inr (d, JInt a))"

fun fetch_taxa_anos ::
  "network \<Rightarrow> string \<Rightarrow> string \<Rightarrow> int \<Rightarrow> int \<Rightarrow> int list \<Rightarrow> world \<Rightarrow> (exn + json \<times> json) \<times> world" where
  "fetch_taxa_anos nw ibge ciclo dep_id loc [] w = (Inr (JNull, JInt 0), w)"
| "fetch_taxa_anos nw ibge ciclo dep_id loc (a # anos) w =
     (case fetch_json nw (taxa_url ibge) (taxa_params dep_id a ciclo loc) 3 w of
        (d, w1) \<Rightarrow>
          (case taxa_nao_vazio d of
             Inl x \<Rightarrow> (Inl x, w1)
           | Inr True \<Rightarrow> (taxa_resultado d a, w1)
           | Inr False \<Rightarrow> fetch_taxa_anos nw ibge ciclo dep_id loc anos w1))"

definition fetch_taxa ::
  "env \<Rightarrow> string \<Rightarrow> string \<Rightarrow> int \<Rightarrow> int option \<Rightarrow> int \<Rightarrow> world \<Rightarrow> (exn + json \<times> json) \<times> world" where
  "fetch_taxa e ibge ciclo dep_id ano loc w =
     fetch_taxa_anos (env_net e) ibge ciclo dep_id loc (anos_a_tentar (env_ano_atual e) ano) w"

section \<open>Resolving the entity (gerador.py)\<close>

definition UF_CODES :: "(string \<times> string \<times> string) list" where
  "UF_CODES =
     [(''11'', (''Rond'' @ u_o_circumflex @ ''nia'', ''RO'')),
      (''12'', (''Acre'', ''AC'')),
      (''13'', (''Amazonas'', ''AM'')),
      (''14'', (''Roraima'', ''RR'')),
      (''15'', (''Par'' @ u_a_acute, ''PA'')),
      (''16'', (''Amap'' @ u_a_acute, ''AP'')),
      (''17'', (''Tocantins'', ''TO'')),
      (''21'', (''Maranh'' @ u_a_tilde @ ''o'', ''MA'')),
      (''22'', (''Piau'' @ u_i_acute, ''PI'')),
      (''23'', (''Cear'' @ u_a_acute, ''CE'')),
      (''24'', (''Rio Grande do Norte'', ''RN'')),
      (''25'', (''Para'' @ u_i_acute @ ''ba'', ''PB'')),
      (''26'', (''Pernambuco'', ''PE'')),
      (''27'', (''Alagoas'', ''AL'')),
      (''28'', (''Sergipe'', ''SE'')),
      (''29'', (''Bahia'', ''BA'')),
      (''31'', (''Minas Gerais'', ''MG'')),
      (''32'', (''Esp'' @ u_i_acute @ ''rito Santo'', ''ES'')),
      (''33'', (''Rio de Janeiro'', ''RJ'')),
      (''35'', (''S'' @ u_a_tilde @ ''o Paulo'', ''SP'')),
      (''41'', (''Paran'' @ u_a_acute, ''PR'')),
      (''42'', (''Santa Catarina'', ''SC'')),
      (''43'', (''Rio Grande do Sul'', ''RS'')),
      (''50'', (''Mato Grosso do Sul'', ''MS'')),
      (''51'', (''Mato Grosso'', ''MT'')),
      (''52'', (''Goi'' @ u_a_acute @ ''s'', ''GO'')),
      (''53'', (''Distrito Federal'', ''DF''))]"

definition is_estado :: "string \<Rightarrow> bool" where
  "is_estado codigo = (map_of UF_CODES (py_strip codigo) \<noteq> None)"

definition territorio_campo :: "json \<Rightarrow> string \<Rightarrow> json \<Rightarrow> exn + json" where
  \<comment> \<open>\<open>r.get("rendimento", r).get("territorio", {}).get(campo, dflt)\<close>\<close>
  "territorio_campo r campo dflt =
     (case py_get r ''rendimento'' r of
        Inl x \<Rightarrow> Inl x
      | Inr rend \<Rightarrow>
          (case py_get rend ''territorio'' (JDict []) of
             Inl x \<Rightarrow> Inl x
           | Inr t \<Rightarrow> py_get t campo dflt))"

definition nome_uf_taxa :: "json \<Rightarrow> exn + (json \<times> json) option" where
  \<comment> \<open>lines 358-368 of \<open>descobrir_municipio\<close> for a truthy reply: the name and the state
      to return, or \<open>None\<close> when the loop over the years is left by \<open>break\<close>\<close>
  "nome_uf_taxa raw =
     (case raw of
        JDict kvs \<Rightarrow>
          (let ent = py_or (dget kvs ''entidade'' JNull) (py_or (dget kvs ''municipio'' JNull) (JList []));
               par = py_or (dget kvs ''parent'' JNull) (py_or (dget kvs ''estado'' JNull) (JList []))
           in case ent of
                JList (e0 # es) \<Rightarrow>
                  (case territorio_campo e0 ''nome'' JNull of
                     Inl x \<Rightarrow> Inl x
                   | Inr nome \<Rightarrow>
                       (case (case par of
                                JList (p0 # ps) \<Rightarrow> territorio_campo p0 ''sigla'' (JStr ''??'')
                              | _ \<Rightarrow> Inr (JStr ''??'')) of
                          Inl x \<Rightarrow> Inl x
                        | Inr uf \<Rightarrow> Inr (if truthy nome then Some (nome, uf) else None)))
              | _ \<Rightarrow> Inr None)
      | _ \<Rightarrow> (case py_get raw ''entidade'' JNull of Inl x \<Rightarrow> Inl x | Inr v \<Rightarrow> Inr None))"

fun descobrir_anos ::
  "network \<Rightarrow> string \<Rightarrow> string \<Rightarrow> int list \<Rightarrow> world \<Rightarrow> (exn + (json \<times> json) option) \<times> world" where
  \<comment> \<open>the loop over the years for one cycle\<close>
  "descobrir_anos nw ibge ciclo [] w = (Inr None, w)"
| "descobrir_anos nw ibge ciclo (ano_t # anos) w =
     (case fetch_json nw (taxa_url ibge) (taxa_params 0 ano_t ciclo 0) 3 w of
        (raw, w1) \<Rightarrow>
          if \<not> truthy raw then descobrir_anos nw ibge ciclo anos w1
          else (nome_uf_taxa raw, w1))"

fun descobrir_ciclos ::
  "env \<Rightarrow> string \<Rightarrow> string list \<Rightarrow> world \<Rightarrow> (exn + (json \<times> json) option) \<times> world" where
  "descobrir_ciclos e ibge [] w = (Inr None, w)"
| "descobrir_ciclos e ibge (ciclo # cs) w =
     (case descobrir_anos (env_net e) ibge ciclo (anos_candidatos (env_ano_atual e) 6) w of
        (Inl x, w1) \<Rightarrow> (Inl x, w1)
      | (Inr (Some r), w1) \<Rightarrow> (Inr (Some r), w1)
      | (Inr None, w1) \<Rightarrow> descobrir_ciclos e ibge cs w1)"

definition nome_uf_censo :: "string \<Rightarrow> json \<Rightarrow> exn + (json \<times> json) option" where
  \<comment> \<open>lines 373-378, from the result \<open>d\<close> of \<open>fetch_censo\<close>\<close>
  "nome_uf_censo ibge d =
     (case d of
        JDict kvs \<Rightarrow>
          (case map_of kvs ''censo'' of
             None \<Rightarrow> Inr None
           | Some c \<Rightarrow>
               (case py_get c ''territorio'' (JDict []) of
                  Inl x \<Rightarrow> Inl x
                | Inr t \<Rightarrow>
                    if \<not> truthy t then Inr None
                    else (case py_get t ''nome'' JNull of
                            Inl x \<Rightarrow> Inl x
                          | Inr nome \<Rightarrow>
                              if \<not> truthy nome then Inr None
                              else (case py_get t ''parent'' (JDict []) of
                                      Inl x \<Rightarrow> Inl x
                                    | Inr p \<Rightarrow>
                                        if truthy p
                                        then (case py_get p ''sigla'' (JStr ''??'') of
                                                Inl x \<Rightarrow> Inl x
                                              | Inr sg \<Rightarrow> Inr (Some (nome, sg)))
                                        else Inr (Some (nome, JStr ''??''))))))
      | _ \<Rightarrow> Inr None)"

definition nome_uf_csv :: "env \<Rightarrow> string \<Rightarrow> json \<times> json" where
  \<comment> \<open>lines 381-392: the first row of the municipal table for the code, among its first
      300000 rows\<close>
  "nome_uf_csv e ibge =
     (case env_mun_csv e of
        None \<Rightarrow> (JStr (''IBGE_'' @ ibge), JStr ''??'')
      | Some rows \<Rightarrow>
          (case filter (\<lambda>r. csv_codigo_ibge r = ibge) (take 300000 rows) of
             [] \<Rightarrow> (JStr (''IBGE_'' @ ibge), JStr ''??'')
           | r # rs \<Rightarrow> (JStr (csv_municipio r), JStr (csv_uf r))))"

definition descobrir_municipio :: "env \<Rightarrow> string \<Rightarrow> world \<Rightarrow> (exn + json \<times> json) \<times> world" where
  "descobrir_municipio e ibge0 w =
     (let ibge = py_strip ibge0
      in case map_of UF_CODES ibge of
           Some (nome, sigla) \<Rightarrow> (Inr (JStr nome, JStr sigla), w)
         | None \<Rightarrow>
             (case descobrir_ciclos e ibge [''AI'', ''AF''] w of
                (Inl x, w1) \<Rightarrow> (Inl x, w1)
              | (Inr (Some r), w1) \<Rightarrow> (Inr r, w1)
              | (Inr None, w1) \<Rightarrow>
                  (case fetch_censo e ibge 5 None 0 0 w1 of
                     (Inl x, w2) \<Rightarrow> (Inl x, w2)
                   | (Inr (d, a), w2) \<Rightarrow>
                       (case nome_uf_censo ibge d of
                          Inl x \<Rightarrow> (Inl x, w2)
                        | Inr (Some r) \<Rightarrow> (Inr r, w2)
                        | Inr None \<Rightarrow> (Inr (nome_uf_csv e ibge), w2)))))"

section \<open>The report renderers (gerador.py)\<close>

definition LINE :: string where
  "LINE = replicate 80 (CHR ''='')"

definition CICLOS :: "(string \<times> string) list" where
  "CICLOS =
     [(''AI'', ''Anos Iniciais (1'' @ u_ordinal @ '' ao 5'' @ u_ordinal @ '')''),
      (''AF'', ''Anos Finais (6'' @ u_ordinal @ '' ao 9'' @ u_ordinal @ '')''),
      (''EM'', ''Ensino M'' @ u_e_acute @ ''dio'')]"

definition kw_txt :: "string \<Rightarrow> string option \<Rightarrow> string" where
  \<comment> \<open>one optional line of \<open>_hdr\<close>: \<open>if kw.get(k): t += f"{label}{kw[k]}\n"\<close>\<close>
  "kw_txt label v =
     (case v of None \<Rightarrow> [] | Some x \<Rightarrow> if x = [] then [] else label @ x @ ''\<newline>'')"

definition hdr ::
  "env \<Rightarrow> string \<Rightarrow> string \<Rightarrow> string option \<Rightarrow> string option \<Rightarrow> string option \<Rightarrow> string option \<Rightarrow> string" where
  \<comment> \<open>\<open>_hdr(titulo, mun, rede=, ciclo=, ano=, periodo=)\<close>, the keyword values as text\<close>
  "hdr e titulo mun rede ciclo ano periodo =
     LINE @ ''\<newline>'' @ titulo @ ''\<newline>'' @ LINE @ ''\<newline>\<newline>''
     @ u_round_pushpin @ '' Territ'' @ u_o_acute @ ''rio: '' @ mun @ ''\<newline>''
     @ kw_txt (u_school @ '' Rede: '') rede
     @ kw_txt (u_books @ '' Ciclo: '') ciclo
     @ kw_txt (u_calendar @ '' Ano de refer'' @ u_e_circumflex @ ''ncia: '') ano
     @ kw_txt (u_calendar @ '' Per'' @ u_i_acute @ ''odo hist'' @ u_o_acute @ ''rico: '') periodo
     @ u_calendar @ '' Gerado em: '' @ env_agora e @ ''\<newline>''"

definition footer :: "string \<Rightarrow> string" where
  "footer fonte = ''\<newline>\<newline>'' @ LINE @ ''\<newline>Fonte: '' @ fonte @ ''\<newline>'' @ LINE @ ''\<newline>''"

definition fonte_qedu :: string where
  \<comment> \<open>the default argument of \<open>_footer\<close>\<close>
  "fonte_qedu = ''QEdu (qedu.org.br)''"

definition show_int :: "int \<Rightarrow> string" where
  "show_int i = (if i < 0 then ''-'' else []) @ digits10 (nat \<bar>i\<bar>)"

definition py_str :: "env \<Rightarrow> json \<Rightarrow> string" where
  \<comment> \<open>\<open>str(x)\<close>\<close>
  "py_str e x =
     (case x of
        JNull \<Rightarrow> ''None''
      | JBool b \<Rightarrow> (if b then ''True'' else ''False'')
      | JInt i \<Rightarrow> show_int i
      | JStr t \<Rightarrow> t
      | _ \<Rightarrow> env_repr e x)"

definition le_num :: "json \<Rightarrow> json \<Rightarrow> exn + bool" where
  \<comment> \<open>\<open>x <= y\<close> where \<open>y\<close> is a number\<close>
  "le_num x y =
     (case (num_of x, num_of y) of
        (Some a, Some b) \<Rightarrow> Inr (a \<le> b)
      | _ \<Rightarrow> Inl (Exn ''TypeError''
                 ([CHR 0x27] @ ''<='' @ [CHR 0x27] @ '' not supported between instances of ''
                  @ [CHR 0x27] @ type_name x @ [CHR 0x27] @ '' and ''
                  @ [CHR 0x27] @ type_name y @ [CHR 0x27])))"

fun extrair_grupo ::
  "env \<Rightarrow> string \<Rightarrow> json list \<Rightarrow> json list \<times> json list \<times> json list
     \<Rightarrow> exn + json list \<times> json list \<times> json list" where
  \<comment> \<open>the loop of \<open>_extrair_territorios\<close> over the records of one group\<close>
  "extrair_grupo e ibge [] acc = Inr acc"
| "extrair_grupo e ibge (r # rs) (mun, est, br) =
     (case r of
        JDict kvs \<Rightarrow>
          (case py_get (dget kvs ''territorio'' (JDict [])) ''ibge_id'' JNull of
             Inl x \<Rightarrow> Inl x
           | Inr rid \<Rightarrow>
               (case py_get (dget kvs ''territorio'' (JDict [])) ''parent_id'' JNull of
                  Inl x \<Rightarrow> Inl x
                | Inr pid \<Rightarrow>
                    if py_str e rid = ibge then extrair_grupo e ibge rs (mun @ [r], est, br)
                    else if num_of rid = Some 7 then extrair_grupo e ibge rs (mun, est, br @ [r])
                    else if pid \<noteq> JNull then
                      (case le_num pid (JInt 27) of
                         Inl x \<Rightarrow> Inl x
                       | Inr b \<Rightarrow> extrair_grupo e ibge rs (mun, if b then est @ [r] else est, br))
                    else extrair_grupo e ibge rs (mun, est, br)))
      | _ \<Rightarrow> extrair_grupo e ibge rs (mun, est, br))"

fun extrair_grupos ::
  "env \<Rightarrow> string \<Rightarrow> json list \<Rightarrow> json list \<times> json list \<times> json list
     \<Rightarrow> exn + json list \<times> json list \<times> json list" where
  "extrair_grupos e ibge [] acc = Inr acc"
| "extrair_grupos e ibge (grupo # gs) acc =
     (case grupo of
        JList rs \<Rightarrow> (case extrair_grupo e ibge rs acc of
                       Inl x \<Rightarrow> Inl x
                     | Inr acc1 \<Rightarrow> extrair_grupos e ibge gs acc1)
      | _ \<Rightarrow> extrair_grupos e ibge gs acc)"

definition extrair_territorios ::
  "env \<Rightarrow> json \<Rightarrow> string \<Rightarrow> exn + json list \<times> json list \<times> json list" where
  "extrair_territorios e dados ibge =
     (case dados of
        JList grupos \<Rightarrow> extrair_grupos e ibge grupos ([], [], [])
      | _ \<Rightarrow> Inr ([], [], []))"

fun aprendizado_ciclos ::
  "env \<Rightarrow> string \<Rightarrow> string \<Rightarrow> (string \<times> string) list \<Rightarrow> string \<Rightarrow> world \<Rightarrow> (exn + string) \<times> world" where
  \<comment> \<open>the loop of \<open>gerar_txt_aprendizado\<close> over the cycles, \<open>txt_final\<close> as accumulator\<close>
  "aprendizado_ciclos e ibge mun [] txt_final w = (Inr txt_final, w)"
| "aprendizado_ciclos e ibge mun ((cid, cnome) # cs) txt_final w =
     (case fetch_aprendizado e ibge 5 cid w of
        (dados, w1) \<Rightarrow>
          (case extrair_territorios e dados ibge of
             Inl x \<Rightarrow> (Inl x, w1)
           | Inr (recs_mun, recs_est, recs_br) \<Rightarrow>
               if recs_mun = [] then aprendizado_ciclos e ibge mun cs txt_final w1
               else (case env_bloco_aprendizado e cid mun recs_mun recs_est recs_br of
                       Inl x \<Rightarrow> (Inl x, w1)
                     | Inr bloco \<Rightarrow> aprendizado_ciclos e ibge mun cs (txt_final @ bloco) w1)))"

definition sem_dados_aprendizado :: "env \<Rightarrow> string \<Rightarrow> string" where
  "sem_dados_aprendizado e mun =
     hdr e (''RELAT'' @ u_cap_o_acute @ ''RIO COMPLETO DE APRENDIZADO - DADOS QEDU'') mun
       None None None None
     @ ''\<newline>  '' @ u_warning_sign @ '' Sem dados de aprendizado dispon'' @ u_i_acute @ ''veis.\<newline>''
     @ footer fonte_qedu"

definition gerar_txt_aprendizado ::
  "env \<Rightarrow> string \<Rightarrow> string \<Rightarrow> json \<Rightarrow> world \<Rightarrow> (exn + string) \<times> world" where
  "gerar_txt_aprendizado e ibge mun uf w =
     (case aprendizado_ciclos e ibge mun CICLOS [] w of
        (Inl x, w1) \<Rightarrow> (Inl x, w1)
      | (Inr txt_final, w1) \<Rightarrow>
          (Inr (if txt_final = [] then sem_dados_aprendizado e mun else txt_final), w1))"

definition sem_dados_infra :: "env \<Rightarrow> string \<Rightarrow> string" where
  "sem_dados_infra e mun =
     hdr e (''RELAT'' @ u_cap_o_acute @ ''RIO DE INFRAESTRUTURA ESCOLAR - DADOS QEDU'') mun
       None None (Some ''N/D'') None
     @ ''\<newline>  '' @ u_warning_sign @ '' Sem dados.\<newline>'' @ footer fonte_qedu"

definition gerar_txt_infra ::
  "env \<Rightarrow> string \<Rightarrow> string \<Rightarrow> json \<Rightarrow> world \<Rightarrow> (exn + string) \<times> world" where
  "gerar_txt_infra e ibge mun uf w =
     (case fetch_infra e ibge 3 None w of
        (Inl x, w1) \<Rightarrow> (Inl x, w1)
      | (Inr (dados, ano), w1) \<Rightarrow>
          if \<not> truthy dados then (Inr (sem_dados_infra e mun), w1)
          else (env_corpo_infra e mun dados ano, w1))"

definition sem_dados_censo :: "env \<Rightarrow> string \<Rightarrow> string" where
  "sem_dados_censo e mun =
     hdr e (''RELAT'' @ u_cap_o_acute @ ''RIO DO CENSO ESCOLAR - DADOS QEDU'') mun
       None None None None
     @ ''\<newline>  '' @ u_warning_sign @ '' Sem dados.\<newline>'' @ footer fonte_qedu"

definition tem_censo :: "json \<Rightarrow> bool" where
  \<comment> \<open>\<open>dados and "censo" in dados\<close> for the result of \<open>fetch_censo\<close>\<close>
  "tem_censo dados = (case dados of JDict kvs \<Rightarrow> map_of kvs ''censo'' \<noteq> None | _ \<Rightarrow> False)"

definition gerar_txt_censo ::
  "env \<Rightarrow> string \<Rightarrow> string \<Rightarrow> json \<Rightarrow> world \<Rightarrow> (exn + string) \<times> world" where
  "gerar_txt_censo e ibge mun uf w =
     (case fetch_censo e ibge 3 None 0 0 w of
        (Inl x, w1) \<Rightarrow> (Inl x, w1)
      | (Inr (dados, ano), w1) \<Rightarrow>
          if \<not> tem_censo dados then (Inr (sem_dados_censo e mun), w1)
          else (env_corpo_censo e mun dados ano, w1))"

subsection \<open>The IDEB report, from the reference tables\<close>

definition normalizar_segmento :: "string \<Rightarrow> string" where
  "normalizar_segmento s0 =
     (let s1 = py_lower (py_strip s0);
          s2 = py_replace u_e_circumflex ''e'' (py_replace u_i_acute ''i''
                 (py_replace u_e_acute ''e'' (py_replace u_a_tilde ''a'' s1)));
          s3 = (if py_in ''medio'' s2 \<and> \<not> py_in ''ensino'' s2
                then py_replace ''medio'' ''ensino medio''
                       (py_replace (''ensino m'' @ u_e_acute @ ''dio'') ''ensino medio'' s2)
                else s2);
          s4 = py_replace ''ano finais'' ''anos finais''
                 (py_replace ''anos inicias'' ''anos iniciais''
                    (py_replace ''ano iniciais'' ''anos iniciais'' s3))
      in py_strip s4)"

definition normalizar_tabela :: "ideb_row list \<Rightarrow> ideb_row list" where
  \<comment> \<open>\<open>df["segmento"] = df["segmento"].apply(_normalizar_segmento)\<close>\<close>
  "normalizar_tabela rows = map (\<lambda>r. r\<lparr>csv_segmento := normalizar_segmento (csv_segmento r)\<rparr>) rows"

definition load_ideb ::
  "env \<Rightarrow> string \<Rightarrow> (ideb_row list \<times> ideb_row list option \<times> ideb_row list) option" where
  \<comment> \<open>\<open>(df_mun, df_uf, uf_df)\<close>, the last being the table \<open>brasil_stats\<close> is grouped from\<close>
  "load_ideb e ibge =
     (case (env_mun_csv e, env_uf_csv e) of
        (Some mun_rows, Some uf_rows) \<Rightarrow>
          (let mun_df = normalizar_tabela mun_rows;
               uf_df = normalizar_tabela uf_rows;
               df_mun = filter (\<lambda>r. csv_codigo_ibge r = ibge) mun_df
           in if is_estado ibge then
                (let uf_sigla = (case map_of UF_CODES ibge of Some (nome, sigla) \<Rightarrow> sigla | None \<Rightarrow> []);
                     df_estado = (if uf_sigla \<noteq> [] then filter (\<lambda>r. csv_uf r = uf_sigla) uf_df else [])
                 in if df_estado = [] then None else Some (df_estado, None, uf_df))
              else if df_mun = [] then None
              else (let uf_sigla = csv_uf (hd df_mun);
                        df_uf = (if uf_sigla \<noteq> [] then filter (\<lambda>r. csv_uf r = uf_sigla) uf_df else [])
                    in Some (df_mun, Some df_uf, uf_df)))
      | _ \<Rightarrow> None)"

definition tem_ideb :: "ideb_row list \<Rightarrow> string list \<Rightarrow> bool" where
  \<comment> \<open>\<open>has_data\<close>: some segment of \<open>segs_usar\<close> has a row of the indicator IDEB\<close>
  "tem_ideb df_esf segs_usar =
     list_ex (\<lambda>seg. filter (\<lambda>r. csv_segmento r = seg \<and> csv_tipo_nome r = ''IDEB'') df_esf \<noteq> [])
       segs_usar"

fun ideb_esferas ::
  "env \<Rightarrow> ideb_row list \<Rightarrow> ideb_row list option \<Rightarrow> ideb_row list \<Rightarrow> string list \<Rightarrow> string
     \<Rightarrow> exn + string" where
  \<comment> \<open>the loop of \<open>gerar_txt_ideb\<close> over the two \<open>esferas\<close>, \<open>txt\<close> as accumulator\<close>
  "ideb_esferas e df_mun df_uf uf_df [] txt = Inr txt"
| "ideb_esferas e df_mun df_uf uf_df (esfera # es) txt =
     (let df_esf = filter (\<lambda>r. csv_esfera r = esfera) df_mun;
          segs_usar = (if esfera = ''municipal''
                       then [''anos iniciais'', ''anos finais'', ''ensino medio'']
                       else [''ensino medio''])
      in if df_esf = [] then ideb_esferas e df_mun df_uf uf_df es txt
         else if \<not> tem_ideb df_esf segs_usar then ideb_esferas e df_mun df_uf uf_df es txt
         else (case env_secao_ideb e esfera df_esf df_uf uf_df of
                 Inl x \<Rightarrow> Inl x
               | Inr secao \<Rightarrow> ideb_esferas e df_mun df_uf uf_df es (txt @ secao)))"

definition sem_dados_ideb :: "env \<Rightarrow> string \<Rightarrow> string" where
  "sem_dados_ideb e mun =
     hdr e (''RELAT'' @ u_cap_o_acute @ ''RIO DE AN'' @ u_cap_a_acute @ ''LISE IDEB'') mun
       None None None None
     @ ''\<newline>  '' @ u_warning_sign @ '' Sem dados IDEB dispon'' @ u_i_acute @ ''veis.\<newline>''
     @ footer ''IDEB/SAEB - INEP/MEC''"

definition cabecalho_ideb :: "env \<Rightarrow> string \<Rightarrow> json \<Rightarrow> string" where
  \<comment> \<open>lines 1023-1028\<close>
  "cabecalho_ideb e mun uf =
     LINE @ ''\<newline>RELAT'' @ u_cap_o_acute @ ''RIO DE AN'' @ u_cap_a_acute @ ''LISE IDEB\<newline>''
     @ ''Gerado em: '' @ env_agora e @ ''\<newline>'' @ LINE @ ''\<newline>''
     @ ''\<newline>'' @ u_round_pushpin @ '' ESCOPO DA AN'' @ u_cap_a_acute @ ''LISE\<newline>''
     @ replicate 40 (CHR ''-'') @ ''\<newline>''
     @ ''Munic'' @ u_i_acute @ ''pio: '' @ mun @ ''\<newline>Estado: '' @ py_str e uf @ ''\<newline>''
     @ ''Comparativo: Munic'' @ u_i_acute @ ''pio vs Estado vs Brasil\<newline>''
     @ ''Nota: Ensino M'' @ u_e_acute @ ''dio usa dados da rede estadual (n'' @ u_a_tilde @ ''o h''
     @ u_a_acute @ '' IDEB municipal para EM)\<newline>''"

definition gerar_txt_ideb ::
  "env \<Rightarrow> string \<Rightarrow> string \<Rightarrow> json \<Rightarrow> world \<Rightarrow> (exn + string) \<times> world" where
  "gerar_txt_ideb e ibge mun uf w =
     (case load_ideb e ibge of
        None \<Rightarrow> (Inr (sem_dados_ideb e mun), w)
      | Some (df_mun, df_uf, uf_df) \<Rightarrow>
          if df_mun = [] then (Inr (sem_dados_ideb e mun), w)
          else (case ideb_esferas e df_mun df_uf uf_df [''municipal'', ''estadual'']
                       (cabecalho_ideb e mun uf) of
                  Inl x \<Rightarrow> (Inl x, w)
                | Inr txt \<Rightarrow>
                    (Inr (txt @ ''\<newline>'' @ LINE @ ''\<newline>Fim do Relat'' @ u_o_acute @ ''rio\<newline>''), w)))"

subsection \<open>The pass and fail rates report\<close>

fun taxa_ciclos ::
  "env \<Rightarrow> string \<Rightarrow> (string \<times> string) list \<Rightarrow> (string \<times> json) list \<Rightarrow> json \<Rightarrow> world
     \<Rightarrow> (exn + (string \<times> json) list \<times> json) \<times> world" where
  \<comment> \<open>the first loop of \<open>gerar_txt_taxa\<close>, with \<open>etapas_dados\<close> and \<open>ano_ref\<close>\<close>
  "taxa_ciclos e ibge [] etapas_dados ano_ref w = (Inr (etapas_dados, ano_ref), w)"
| "taxa_ciclos e ibge ((cid, cnome) # cs) etapas_dados ano_ref w =
     (case fetch_taxa e ibge cid 0 None 0 w of
        (Inl x, w1) \<Rightarrow> (Inl x, w1)
      | (Inr (dados, a), w1) \<Rightarrow>
          if \<not> truthy dados then taxa_ciclos e ibge cs (etapas_dados @ [(cid, JNull)]) ano_ref w1
          else (case gt_num a ano_ref of
                  Inl x \<Rightarrow> (Inl x, w1)
                | Inr maior \<Rightarrow>
                    (case env_etapa_taxa e cid dados a of
                       Inl x \<Rightarrow> (Inl x, w1)
                     | Inr ed \<Rightarrow>
                         taxa_ciclos e ibge cs (etapas_dados @ [(cid, ed)])
                           (if maior then a else ano_ref) w1)))"

definition sem_dados_taxa :: "env \<Rightarrow> string \<Rightarrow> string" where
  "sem_dados_taxa e mun =
     hdr e (''RELAT'' @ u_cap_o_acute @ ''RIO DE TAXAS DE RENDIMENTO - DADOS QEDU'') mun
       None None None None
     @ ''\<newline>  '' @ u_warning_sign @ '' Sem dados.\<newline>'' @ footer fonte_qedu"

definition gerar_txt_taxa ::
  "env \<Rightarrow> string \<Rightarrow> string \<Rightarrow> json \<Rightarrow> world \<Rightarrow> (exn + string) \<times> world" where
  "gerar_txt_taxa e ibge mun uf w =
     (case taxa_ciclos e ibge CICLOS [] (JInt 0) w of
        (Inl x, w1) \<Rightarrow> (Inl x, w1)
      | (Inr (etapas_dados, ano_ref), w1) \<Rightarrow>
          if \<not> truthy ano_ref then (Inr (sem_dados_taxa e mun), w1)
          else (env_corpo_taxa e mun etapas_dados ano_ref, w1))"

section \<open>The structured summary and the orchestrator (gerador.py)\<close>

fun est_aprendizado ::
  "env \<Rightarrow> string \<Rightarrow> (string \<times> string) list \<Rightarrow> (string \<times> json) list \<Rightarrow> world
     \<Rightarrow> (exn + (string \<times> json) list) \<times> world" where
  \<comment> \<open>the loop of \<open>coletar_dados_estruturados\<close> that fills the dict \<open>aprendizado\<close>\<close>
  "est_aprendizado e ibge [] aprendizado w = (Inr aprendizado, w)"
| "est_aprendizado e ibge ((cid, cnome) # cs) aprendizado w =
     (case fetch_aprendizado e ibge 5 cid w of
        (raw, w1) \<Rightarrow>
          (case extrair_territorios e raw ibge of
             Inl x \<Rightarrow> (Inl x, w1)
           | Inr (mun_recs, est_recs, br_recs) \<Rightarrow>
               if mun_recs = [] then est_aprendizado e ibge cs aprendizado w1
               else (case env_est_ciclo e mun_recs br_recs of
                       Inl x \<Rightarrow> (Inl x, w1)
                     | Inr ciclo_d \<Rightarrow> est_aprendizado e ibge cs (aprendizado @ [(cid, ciclo_d)]) w1)))"

fun est_taxa ::
  "env \<Rightarrow> string \<Rightarrow> (string \<times> string) list \<Rightarrow> (string \<times> json) list \<Rightarrow> world
     \<Rightarrow> (exn + (string \<times> json) list) \<times> world" where
  \<comment> \<open>the loop that fills the dict \<open>taxa_d\<close>\<close>
  "est_taxa e ibge [] taxa_d w = (Inr taxa_d, w)"
| "est_taxa e ibge ((cid, cnome) # cs) taxa_d w =
     (case fetch_taxa e ibge cid 0 None 0 w of
        (Inl x, w1) \<Rightarrow> (Inl x, w1)
      | (Inr (raw_t, ano_t), w1) \<Rightarrow>
          if \<not> truthy raw_t then est_taxa e ibge cs taxa_d w1
          else (case env_est_taxa e cid raw_t ano_t of
                  Inl x \<Rightarrow> (Inl x, w1)
                | Inr None \<Rightarrow> est_taxa e ibge cs taxa_d w1
                | Inr (Some t) \<Rightarrow> est_taxa e ibge cs (taxa_d @ [(cid, t)]) w1))"

definition secao :: "string \<Rightarrow> (string \<times> json) list \<Rightarrow> (string \<times> json) list" where
  \<comment> \<open>\<open>if d: dados[k] = d\<close>\<close>
  "secao k d = (if d = [] then [] else [(k, JDict d)])"

definition est_censo :: "env \<Rightarrow> string \<Rightarrow> world \<Rightarrow> (exn + (string \<times> json) list) \<times> world" where
  \<comment> \<open>the census part of \<open>coletar_dados_estruturados\<close>: the entries it adds to \<open>dados\<close>\<close>
  "est_censo e ibge w =
     (case fetch_censo e ibge 3 None 0 0 w of
        (Inl x, w1) \<Rightarrow> (Inl x, w1)
      | (Inr (raw_c, ano_c), w1) \<Rightarrow>
          if tem_censo raw_c
          then (case env_est_censo e raw_c ano_c of
                  Inl x \<Rightarrow> (Inl x, w1)
                | Inr censo_d \<Rightarrow> (Inr [(''censo'', censo_d)], w1))
          else (Inr [], w1))"

definition est_infra :: "env \<Rightarrow> string \<Rightarrow> world \<Rightarrow> (exn + (string \<times> json) list) \<times> world" where
  \<comment> \<open>the infrastructure part of \<open>coletar_dados_estruturados\<close>\<close>
  "est_infra e ibge w =
     (case fetch_infra e ibge 3 None w of
        (Inl x, w1) \<Rightarrow> (Inl x, w1)
      | (Inr (raw_i, ano_i), w1) \<Rightarrow>
          if truthy raw_i
          then (case env_est_infra e raw_i ano_i of
                  Inl x \<Rightarrow> (Inl x, w1)
                | Inr infra_d \<Rightarrow> (Inr [(''infra'', infra_d)], w1))
          else (Inr [], w1))"

definition coletar_dados_estruturados ::
  "env \<Rightarrow> string \<Rightarrow> string \<Rightarrow> json \<Rightarrow> world \<Rightarrow> (exn + (string \<times> json) list) \<times> world" where
  "coletar_dados_estruturados e ibge mun uf w =
     (let dados = [(''entidade'', JStr mun), (''uf'', uf),
                   (''tipo'', JStr (if is_estado ibge then ''estado'' else ''municipio''))]
      in case est_aprendizado e ibge CICLOS [] w of
           (Inl x, w1) \<Rightarrow> (Inl x, w1)
         | (Inr aprendizado, w1) \<Rightarrow>
             (case est_censo e ibge w1 of
                (Inl x, w2) \<Rightarrow> (Inl x, w2)
              | (Inr censo, w2) \<Rightarrow>
                  (case est_infra e ibge w2 of
                     (Inl x, w3) \<Rightarrow> (Inl x, w3)
                   | (Inr infra, w3) \<Rightarrow>
                       (case est_taxa e ibge CICLOS [] w3 of
                          (Inl x, w4) \<Rightarrow> (Inl x, w4)
                        | (Inr taxa_d, w4) \<Rightarrow>
                            (Inr (dados @ secao ''aprendizado'' aprendizado @ censo @ infra
                                  @ secao ''taxa_rendimento'' taxa_d), w4)))))"

definition slug :: "string \<Rightarrow> string" where
  "slug nome =
     py_replace u_o_circumflex ''o'' (py_replace u_e_circumflex ''e'' (py_replace u_a_circumflex ''a''
       (py_replace u_u_acute ''u'' (py_replace u_o_acute ''o'' (py_replace u_i_acute ''i''
         (py_replace u_c_cedilla ''c'' (py_replace u_e_acute ''e'' (py_replace u_a_tilde ''a''
           (py_replace ''/'' ''_'' (py_replace [CHR 0x27] [] (py_replace '' '' ''_'' nome)))))))))))"

type_synonym gerador = "env \<Rightarrow> string \<Rightarrow> string \<Rightarrow> json \<Rightarrow> world \<Rightarrow> (exn + string) \<times> world"

definition geradores :: "(string \<times> gerador) list" where
  "geradores =
     [(''aprendizado'', gerar_txt_aprendizado),
      (''infra'', gerar_txt_infra),
      (''censo'', gerar_txt_censo),
      (''ideb'', gerar_txt_ideb),
      (''taxa_rendimento'', gerar_txt_taxa)]"

fun dict_set :: "'k \<Rightarrow> 'v \<Rightarrow> ('k \<times> 'v) list \<Rightarrow> ('k \<times> 'v) list" where
  \<comment> \<open>\<open>d[k] = v\<close> on a dict kept in insertion order\<close>
  "dict_set k v [] = [(k, v)]"
| "dict_set k v (p # ps) = (if fst p = k then (k, v) # ps else p # dict_set k v ps)"

definition erro_txt :: "string \<Rightarrow> exn \<Rightarrow> string" where
  \<comment> \<open>\<open>f"(cross mark) Erro ao gerar {nome}: {e}"\<close>\<close>
  "erro_txt nome x = (case x of Exn cls msg \<Rightarrow> u_cross_mark @ '' Erro ao gerar '' @ nome @ '': '' @ msg)"

fun gerar_arquivos ::
  "env \<Rightarrow> string \<Rightarrow> string \<Rightarrow> json \<Rightarrow> string \<Rightarrow> (string \<times> gerador) list
     \<Rightarrow> (string \<times> string) list \<Rightarrow> world \<Rightarrow> (string \<times> string) list \<times> world" where
  \<comment> \<open>the loop of \<open>gerar_todos\<close> over the renderers, with its \<open>try\<close> and \<open>except Exception\<close>\<close>
  "gerar_arquivos e ibge mun uf_sigla slg [] arquivos w = (arquivos, w)"
| "gerar_arquivos e ibge mun uf_sigla slg ((nome, fn) # gs) arquivos w =
     (case fn e ibge mun uf_sigla w of
        (r, w1) \<Rightarrow>
          (let txt = (case r of Inr t \<Rightarrow> t | Inl x \<Rightarrow> erro_txt nome x);
               fname = slg @ ''_'' @ nome @ ''.txt''
           in gerar_arquivos e ibge mun uf_sigla slg gs (dict_set fname txt arquivos) w1))"

record report_bundle =
  b_municipio :: string
  b_uf :: json
  b_ibge :: string
  b_arquivos :: "(string \<times> string) list"
  b_dados_estruturados :: "(string \<times> json) list"

text \<open>
  \<open>gerar_todos\<close> with \<open>output_dir=None\<close>, its default: nothing is written to disk. The
  name returned by \<open>descobrir_municipio\<close> must be a \<open>str\<close> for \<open>_slug\<close> to work on it.
\<close>

definition gerar_todos :: "env \<Rightarrow> string \<Rightarrow> world \<Rightarrow> (exn + report_bundle) \<times> world" where
  "gerar_todos e ibge w0 =
     (let w = clear_cache w0
      in case descobrir_municipio e ibge w of
           (Inl x, w1) \<Rightarrow> (Inl x, w1)
         | (Inr (JStr mun, uf_sigla), w1) \<Rightarrow>
             (case gerar_arquivos e ibge mun uf_sigla (slug mun) geradores [] w1 of
                (arquivos, w2) \<Rightarrow>
                  (case coletar_dados_estruturados e ibge mun uf_sigla w2 of
                     (Inl x, w3) \<Rightarrow> (Inl x, w3)
                   | (Inr dados_estruturados, w3) \<Rightarrow>
                       (Inr \<lparr>b_municipio = mun, b_uf = uf_sigla, b_ibge = ibge,
                              b_arquivos = arquivos,
                              b_dados_estruturados = dados_estruturados\<rparr>, w3)))
         | (Inr (nome, uf_sigla), w1) \<Rightarrow>
             (Inl (Exn ''AttributeError''
                     ([CHR 0x27] @ type_name nome @ [CHR 0x27] @ '' object has no attribute ''
                      @ [CHR 0x27] @ ''replace'' @ [CHR 0x27])), w1))"

section \<open>The HTTP service (app.py)\<close>

definition TIPOS_VALIDOS :: "string list" where
  "TIPOS_VALIDOS = [''aprendizado'', ''infra'', ''censo'', ''ideb'', ''taxa_rendimento'']"

definition validar_ibge :: "string \<Rightarrow> (nat \<times> string) + string" where
  \<comment> \<open>\<open>Inl (status, erro)\<close> for the error response, \<open>Inr\<close> the cleaned code\<close>
  "validar_ibge ibge0 =
     (let ibge = py_strip ibge0
      in if \<not> py_isdigit ibge \<or> length ibge \<notin> {2, 7}
         then Inl (400, ''C'' @ u_o_acute @ ''digo IBGE inv'' @ u_a_acute @ ''lido: '' @ [CHR 0x27]
                        @ ibge @ [CHR 0x27] @ ''. Use 7 d'' @ u_i_acute @ ''gitos (munic''
                        @ u_i_acute @ ''pio) ou 2 d'' @ u_i_acute @ ''gitos (estado).'')
         else Inr ibge)"

fun tipo_de :: "string \<Rightarrow> string list \<Rightarrow> string option" where
  \<comment> \<open>the first kind whose name occurs in the lower-cased file name\<close>
  "tipo_de fname [] = None"
| "tipo_de fname (tipo # ts) = (if py_in tipo (py_lower fname) then Some tipo else tipo_de fname ts)"

fun organizar :: "(string \<times> string) list \<Rightarrow> (string \<times> string) list \<Rightarrow> (string \<times> string) list" where
  \<comment> \<open>the loop of \<open>_gerar\<close> that fills \<open>relatorios\<close>\<close>
  "organizar [] relatorios = relatorios"
| "organizar ((fname, conteudo) # arqs) relatorios =
     organizar arqs (case tipo_de fname TIPOS_VALIDOS of
                       Some tipo \<Rightarrow> dict_set tipo conteudo relatorios
                     | None \<Rightarrow> relatorios)"

record resposta =
  r_municipio :: string
  r_uf :: json
  r_ibge :: string
  r_tipo :: string
  r_relatorios :: "(string \<times> string) list"
  r_dados :: "(string \<times> json) list option"

text \<open>
  \<open>_gerar\<close>, with the generator it calls as a parameter: \<open>gerar\<close> below is its instance
  for \<open>gerar_todos\<close>. The files written under \<open>OUTPUT_DIR / ibge\<close> are not modelled.
\<close>

definition gerar_com ::
  "(string \<Rightarrow> 'w \<Rightarrow> (exn + report_bundle) \<times> 'w) \<Rightarrow> string \<Rightarrow> 'w \<Rightarrow> ((nat \<times> string) + resposta) \<times> 'w" where
  "gerar_com gerador ibge0 w =
     (case validar_ibge ibge0 of
        Inl erro \<Rightarrow> (Inl erro, w)
      | Inr ibge \<Rightarrow>
          (case gerador ibge w of
             (Inl (Exn cls msg), w1) \<Rightarrow> (Inl (500, ''Erro ao gerar: '' @ msg), w1)
           | (Inr resultado, w1) \<Rightarrow>
               (Inr \<lparr>r_municipio = b_municipio resultado, r_uf = b_uf resultado, r_ibge = ibge,
                      r_tipo = (if is_estado ibge then ''estado'' else ''municipio''),
                      r_relatorios = organizar (b_arquivos resultado) [],
                      r_dados = (if b_dados_estruturados resultado \<noteq> []
                                 then Some (b_dados_estruturados resultado) else None)\<rparr>, w1)))"

definition gerar :: "env \<Rightarrow> string \<Rightarrow> world \<Rightarrow> ((nat \<times> string) + resposta) \<times> world" where
  "gerar e ibge w = gerar_com (gerar_todos e) ibge w"

section \<open>Trend of a series (gerador.py)\<close>



section \<open>Notions used in the statements\<close>

definition txt_ou_erro :: "string \<Rightarrow> exn + string \<Rightarrow> string" where
  \<comment> \<open>the entry of \<open>arquivos\<close> for a renderer that returned or raised\<close>
  "txt_ou_erro nome r = (case r of Inr t \<Rightarrow> t | Inl x \<Rightarrow> erro_txt nome x)"



section \<open>Example networks and worlds\<close>

definition rede_fora :: network where
  "rede_fora n rq = Failure"

definition mundo_inicial :: world where
  "mundo_inicial = \<lparr>cache = Map.empty, sent = []\<rparr>"

definition rede_contador :: network where
  \<comment> \<open>a network whose reply is the number of requests it has seen\<close>
  "rede_contador n rq = Reply (JInt (int n))"

definition rede_vazia :: network where
  \<comment> \<open>a network whose every reply is the JSON value \<open>null\<close>\<close>
  "rede_vazia n rq = Reply JNull"

definition env_vazio :: env where
  \<comment> \<open>every request is answered with \<open>null\<close>, the reference tables are missing\<close>
  "env_vazio =
     \<lparr>env_net = rede_vazia, env_ano_atual = 2026, env_agora = ''03/11/2026 10:00'',
      env_repr = (\<lambda>x. ''?''), env_mun_csv = None, env_uf_csv = None,
      env_bloco_aprendizado = (\<lambda>cid mun recs_mun recs_est recs_br. Inr ''bloco''),
      env_corpo_infra = (\<lambda>mun dados ano. Inr ''infra''),
      env_corpo_censo = (\<lambda>mun dados ano. Inr ''censo''),
      env_secao_ideb = (\<lambda>esfera df_esf df_uf uf_df. Inr ''ideb''),
      env_etapa_taxa = (\<lambda>cid dados a. Inr JNull),
      env_corpo_taxa = (\<lambda>mun etapas_dados ano_ref. Inr ''taxa''),
      env_est_ciclo = (\<lambda>mun_recs br_recs. Inr JNull),
      env_est_censo = (\<lambda>raw_c ano_c. Inr JNull),
      env_est_infra = (\<lambda>raw_i ano_i. Inr JNull),
      env_est_taxa = (\<lambda>cid raw_t ano_t. Inr None)\<rparr>"

definition linha_ceara :: ideb_row where
  \<comment> \<open>a row of the state table: the IDEB of the state network of Ceara, secondary school\<close>
  "linha_ceara =
     \<lparr>csv_codigo_ibge = ''23'', csv_municipio = [], csv_uf = ''CE'', csv_esfera = ''estadual'',
      csv_segmento = ''Ensino M'' @ u_e_acute @ ''dio'', csv_tipo_nome = ''IDEB'',
      csv_ano = 2019, csv_valor = Some (22 / 5)\<rparr>"

definition env_ideb_falha :: env where
  \<comment> \<open>as \<open>env_vazio\<close>, with a state table, and the text of an IDEB section raises\<close>
  "env_ideb_falha =
     env_vazio\<lparr>env_mun_csv := Some [], env_uf_csv := Some [linha_ceara],
               env_secao_ideb := (\<lambda>esfera df_esf df_uf uf_df. Inl (Exn ''KeyError'' ''mean''))\<rparr>"

definition rede_censo_lista :: network where
  \<comment> \<open>the census endpoint answers with a JSON list, every other endpoint with \<open>null\<close>\<close>
  "rede_censo_lista n rq =
     (if fst rq = BASE_URL @ ''/censo/territorios/matriculas'' then Reply (JList [JInt 1])
      else Reply JNull)"

definition env_censo_lista :: env where
  "env_censo_lista = env_vazio\<lparr>env_net := rede_censo_lista\<rparr>"


section \<open>Properties of the formatting helpers\<close>








lemma pct_normalizar: "pct (Some x) = fmt_f 1 (normalizar_pct x) @ ''%''"
  by (simp add: pct_def normalizar_pct_def)

lemma safe_taxa_normalizar: "safe_taxa (Some x) = fmt_f 1 (normalizar_pct x) @ ''%''"
  by (simp add: safe_taxa_def normalizar_pct_def)

lemma pp_normalizar: "pp (Some x) d = fmt_plus_f d (normalizar_pct x) @ ''pp''"
  by (simp add: pp_def normalizar_pct_def)

text \<open>
  C3. The claim: every display and classification helper applies the one convention
  (absolute value at most 1.01: multiply by 100), \<open>_classificar_desempenho\<close> included.
  \<open>_pct\<close> and \<open>_classificar_taxa\<close> read 1.005 as 100.5 per cent;
  \<open>_classificar_desempenho\<close> tests \<open>pct_adequado <= 1\<close> instead and reads the same
  value as 1.005 per cent, so the report shows 100.5% next to the lowest tier.
\<close>

theorem classificar_desempenho_diverges:
  "pct (Some (201 / 200)) = ''100.5%''
   \<and> fst (classificar_taxa (Some (201 / 200)) ''aprovacao'') = ''Excelente''
   \<and> fst (classificar_desempenho (Some (201 / 200)))
       = ''Desempenho cr'' @ u_i_acute @ ''tico - oportunidade de atua''
           @ u_c_cedilla @ u_a_tilde @ ''o''
   \<and> fst (classificar_desempenho (Some (normalizar_pct (201 / 200)))) = ''Bom desempenho''"
  by (simp add: pct_def classificar_taxa_def classificar_desempenho_def normalizar_pct_def
      fmt_f_def round_half_even_def Let_def digits10.simps)






section \<open>The fetch cache\<close>


lemma fetch_attempts_cache:
  "0 < t \<Longrightarrow> fetch_attempts nw key rq t w = (r, w') \<Longrightarrow> cache w' = (cache w)(key \<mapsto> r)"
proof (induction t arbitrary: w)
  case 0
  then show ?case by simp
next
  case (Suc k)
  let ?w1 = "w\<lparr>sent := sent w @ [rq]\<rparr>"
  show ?case
  proof (cases "nw (length (sent w)) rq")
    case (Reply j)
    with Suc.prems(2) show ?thesis by (auto simp: Let_def)
  next
    case Failure
    show ?thesis
    proof (cases "k = 0")
      case True
      with Failure Suc.prems(2) show ?thesis by (auto simp: Let_def)
    next
      case False
      with Failure Suc.prems(2) have "fetch_attempts nw key rq k ?w1 = (r, w')"
        by (simp add: Let_def)
      with Suc.IH[of ?w1] False show ?thesis by simp
    qed
  qed
qed

lemma fetch_json_hit:
  "cache w (cache_key url ps) = Some j \<Longrightarrow> fetch_json nw url ps t w = (j, w)"
  by (simp add: fetch_json_def)

lemma fetch_json_cached:
  "0 < t \<Longrightarrow> fetch_json nw url ps t w = (r, w') \<Longrightarrow> cache w' (cache_key url ps) = Some r"
proof (cases "cache w (cache_key url ps)")
  case None
  assume t: "0 < t" and f: "fetch_json nw url ps t w = (r, w')"
  from f None have "fetch_attempts nw (cache_key url ps) (url, ps) t w = (r, w')"
    by (simp add: fetch_json_def)
  from fetch_attempts_cache[OF t this] show ?thesis by simp
next
  case (Some a)
  assume "fetch_json nw url ps t w = (r, w')"
  with Some show ?thesis by (simp add: fetch_json_def)
qed

lemma fetch_json_keeps:
  "cache w k = Some j \<Longrightarrow> cache (snd (fetch_json nw url ps t w)) k = Some j"
proof (cases "cache w (cache_key url ps)")
  case None
  assume k: "cache w k = Some j"
  with None have ne: "k \<noteq> cache_key url ps" by auto
  show ?thesis
  proof (cases t)
    case 0
    with k None show ?thesis by (simp add: fetch_json_def)
  next
    case (Suc n)
    then have t: "0 < t" by simp
    have "fetch_attempts nw (cache_key url ps) (url, ps) t w
            = (fst (fetch_attempts nw (cache_key url ps) (url, ps) t w),
               snd (fetch_attempts nw (cache_key url ps) (url, ps) t w))" by simp
    from fetch_attempts_cache[OF t this] k ne None show ?thesis by (simp add: fetch_json_def)
  qed
next
  case (Some a)
  assume "cache w k = Some j"
  with Some show ?thesis by (simp add: fetch_json_def)
qed

lemma run_fetches_keeps:
  "cache w k = Some j \<Longrightarrow> cache (run_fetches nw calls w) k = Some j"
proof (induction calls arbitrary: w)
  case Nil
  then show ?case by simp
next
  case (Cons c calls)
  obtain url ps t where c: "c = (url, ps, t)" by (cases c)
  from Cons.prems have "cache (snd (fetch_json nw url ps t w)) k = Some j" by (rule fetch_json_keeps)
  from Cons.IH[OF this] c show ?case by simp
qed

lemma same_keys_same_list:
  "map fst xs = map fst ys \<Longrightarrow> distinct (map fst xs) \<Longrightarrow> set xs = set ys \<Longrightarrow> xs = ys"
proof (induction xs arbitrary: ys)
  case Nil
  then show ?case by simp
next
  case (Cons x xs)
  then obtain y ys' where ys: "ys = y # ys'" by (cases ys) auto
  from Cons.prems(1) ys have k1: "fst x = fst y" and k2: "map fst xs = map fst ys'" by simp_all
  from Cons.prems(2) have d1: "fst x \<notin> set (map fst xs)" and d2: "distinct (map fst xs)" by simp_all
  from d1 k2 have d3: "fst y \<notin> set (map fst ys')" using k1 by simp
  from Cons.prems(3) ys have "x \<in> set (y # ys')" by auto
  then have "x = y \<or> x \<in> set ys'" by simp
  moreover have "x \<notin> set ys'"
  proof
    assume "x \<in> set ys'"
    then have "fst x \<in> set (map fst ys')" by (simp add: rev_image_eqI)
    with d3 k1 show False by simp
  qed
  ultimately have xy: "x = y" by simp
  have nx: "x \<notin> set xs"
  proof
    assume "x \<in> set xs"
    then have "fst x \<in> set (map fst xs)" by (simp add: rev_image_eqI)
    with d1 show False by simp
  qed
  have ny: "y \<notin> set ys'"
  proof
    assume "y \<in> set ys'"
    then have "fst y \<in> set (map fst ys')" by (simp add: rev_image_eqI)
    with d3 show False by simp
  qed
  from Cons.prems(3) ys xy have "insert y (set xs) = insert y (set ys')" by simp
  with nx ny xy have "set xs = set ys'" by (metis insert_ident)
  from Cons.IH[OF k2 d2 this] xy ys show ?case by simp
qed

lemma distinct_keys_sort_key:
  "distinct (map fst ps) \<Longrightarrow> distinct (map fst (sort_key fst ps))"
  by (simp add: distinct_map)

lemma sort_key_params:
  "distinct (map fst ps) \<Longrightarrow> distinct (map fst qs) \<Longrightarrow> set ps = set qs
   \<Longrightarrow> sort_key fst ps = sort_key fst qs"
proof -
  assume dp: "distinct (map fst ps)" and dq: "distinct (map fst qs)" and eq: "set ps = set qs"
  have sp: "sorted (map fst (sort_key fst ps))" and sq: "sorted (map fst (sort_key fst qs))"
    by (rule sorted_sort_key)+
  from dp have p2: "distinct (map fst (sort_key fst ps))" by (rule distinct_keys_sort_key)
  from dq have q2: "distinct (map fst (sort_key fst qs))" by (rule distinct_keys_sort_key)
  from eq have "set (map fst (sort_key fst ps)) = set (map fst (sort_key fst qs))" by simp
  with sp sq p2 q2 have 1: "map fst (sort_key fst ps) = map fst (sort_key fst qs)"
    by (intro sorted_distinct_set_unique)
  from eq have 3: "set (sort_key fst ps) = set (sort_key fst qs)" by simp
  from 1 p2 3 show ?thesis by (rule same_keys_same_list)
qed

lemma fetch_attempts_all_fail:
  "0 < t \<Longrightarrow> \<forall>i<t. nw (length (sent w) + i) rq = Failure
   \<Longrightarrow> fst (fetch_attempts nw key rq t w) = JNull
       \<and> sent (snd (fetch_attempts nw key rq t w)) = sent w @ replicate t rq"
proof (induction t arbitrary: w)
  case 0
  then show ?case by simp
next
  case (Suc k)
  let ?w1 = "w\<lparr>sent := sent w @ [rq]\<rparr>"
  from Suc.prems(2) have f0: "nw (length (sent w)) rq = Failure" by (metis add.right_neutral zero_less_Suc)
  show ?case
  proof (cases "k = 0")
    case True
    with f0 show ?thesis by (simp add: Let_def)
  next
    case False
    have "\<forall>i<k. nw (length (sent ?w1) + i) rq = Failure"
    proof (intro allI impI)
      fix i assume "i < k"
      then have "Suc i < Suc k" by simp
      with Suc.prems(2) have "nw (length (sent w) + Suc i) rq = Failure" by blast
      then show "nw (length (sent ?w1) + i) rq = Failure" by simp
    qed
    with Suc.IH[of ?w1] False
    have "fst (fetch_attempts nw key rq k ?w1) = JNull"
      and "sent (snd (fetch_attempts nw key rq k ?w1)) = sent ?w1 @ replicate k rq" by simp_all
    with f0 False show ?thesis by (simp add: Let_def replicate_append_same)
  qed
qed

text \<open>
  C10. When every attempt of \<open>fetch_json\<close> for a key fails, the result is \<open>None\<close>,
  exactly \<open>tentativas\<close> requests have been sent, \<open>None\<close> is stored under the key,
  and after any further fetches of the run a call with the same URL and parameters
  returns \<open>None\<close> and leaves the world, and so the log of requests, as it was.
\<close>

theorem fetch_json_failure_is_cached:
  assumes "0 < t"
    and "cache w (cache_key url ps) = None"
    and "\<forall>i<t. nw (length (sent w) + i) (url, ps) = Failure"
  shows "fst (fetch_json nw url ps t w) = JNull
         \<and> sent (snd (fetch_json nw url ps t w)) = sent w @ replicate t (url, ps)
         \<and> cache (snd (fetch_json nw url ps t w)) (cache_key url ps) = Some JNull
         \<and> (let w2 = run_fetches nw calls (snd (fetch_json nw url ps t w))
              in fetch_json nw url ps t' w2 = (JNull, w2))"
proof -
  let ?key = "cache_key url ps"
  let ?w1 = "snd (fetch_json nw url ps t w)"
  from assms(2) have fj: "fetch_json nw url ps t w = fetch_attempts nw ?key (url, ps) t w"
    by (simp add: fetch_json_def)
  from fetch_attempts_all_fail[of t nw w "(url, ps)" ?key] assms(1) assms(3) fj
  have r: "fst (fetch_json nw url ps t w) = JNull"
    and s: "sent ?w1 = sent w @ replicate t (url, ps)" by simp_all
  have "fetch_json nw url ps t w = (fst (fetch_json nw url ps t w), ?w1)" by simp
  from fetch_json_cached[OF assms(1) this] r have c: "cache ?w1 ?key = Some JNull" by simp
  then have "cache (run_fetches nw calls ?w1) ?key = Some JNull" by (rule run_fetches_keeps)
  then have "fetch_json nw url ps t' (run_fetches nw calls ?w1) = (JNull, run_fetches nw calls ?w1)"
    by (rule fetch_json_hit)
  with r s c show ?thesis by (simp add: Let_def)
qed

theorem fetch_json_failure_is_cached_witness:
  "fst (fetch_json rede_fora ''u'' [(''ano'', PInt 2024)] 3 mundo_inicial) = JNull
   \<and> sent (snd (fetch_json rede_fora ''u'' [(''ano'', PInt 2024)] 3 mundo_inicial))
       = replicate 3 (''u'', [(''ano'', PInt 2024)])
   \<and> fetch_json rede_fora ''u'' [(''ano'', PInt 2024)] 3
         (run_fetches rede_fora [(''v'', [], 3)]
            (snd (fetch_json rede_fora ''u'' [(''ano'', PInt 2024)] 3 mundo_inicial)))
       = (JNull, run_fetches rede_fora [(''v'', [], 3)]
            (snd (fetch_json rede_fora ''u'' [(''ano'', PInt 2024)] 3 mundo_inicial)))"
proof -
  have h1: "0 < (3::nat)" by simp
  have h2: "cache mundo_inicial (cache_key ''u'' [(''ano'', PInt 2024)]) = None"
    by (simp add: mundo_inicial_def)
  have h3: "\<forall>i<3. rede_fora (length (sent mundo_inicial) + i) (''u'', [(''ano'', PInt 2024)]) = Failure"
    by (simp add: rede_fora_def)
  have s0: "sent mundo_inicial = []" by (simp add: mundo_inicial_def)
  from fetch_json_failure_is_cached
    [of 3 mundo_inicial "''u''" "[(''ano'', PInt 2024)]" rede_fora "[(''v'', [], 3)]" 3] h1 h2 h3
  have "fst (fetch_json rede_fora ''u'' [(''ano'', PInt 2024)] 3 mundo_inicial) = JNull
         \<and> sent (snd (fetch_json rede_fora ''u'' [(''ano'', PInt 2024)] 3 mundo_inicial))
             = sent mundo_inicial @ replicate 3 (''u'', [(''ano'', PInt 2024)])
         \<and> cache (snd (fetch_json rede_fora ''u'' [(''ano'', PInt 2024)] 3 mundo_inicial))
               (cache_key ''u'' [(''ano'', PInt 2024)]) = Some JNull
         \<and> (let w2 = run_fetches rede_fora [(''v'', [], 3)]
                         (snd (fetch_json rede_fora ''u'' [(''ano'', PInt 2024)] 3 mundo_inicial))
              in fetch_json rede_fora ''u'' [(''ano'', PInt 2024)] 3 w2 = (JNull, w2))"
    by blast
  with s0 show ?thesis unfolding Let_def by simp
qed

text \<open>
  C2. After a call of \<open>fetch_json\<close> (with at least one attempt), and after any further
  fetches of the run, a call with the same URL and the same parameter set, in whatever
  order the dict lists it, returns the first call's result and leaves the world, and so
  the log of requests, as it was. And \<open>gerar_todos\<close> starts from an empty cache: what it
  does and returns does not depend on the cache it finds.
\<close>

theorem fetch_json_repeat_is_cached:
  assumes "0 < t" and "distinct (map fst ps)" and "distinct (map fst qs)" and "set qs = set ps"
  shows "(let w1 = snd (fetch_json nw url ps t w); w2 = run_fetches nw calls w1
          in fetch_json nw url qs t' w2 = (fst (fetch_json nw url ps t w), w2))
         \<and> gerar_todos e ibge (w\<lparr>cache := c\<rparr>) = gerar_todos e ibge (w\<lparr>cache := Map.empty\<rparr>)"
proof -
  let ?w1 = "snd (fetch_json nw url ps t w)"
  let ?r = "fst (fetch_json nw url ps t w)"
  have "fetch_json nw url ps t w = (?r, ?w1)" by simp
  from fetch_json_cached[OF assms(1) this] have "cache ?w1 (cache_key url ps) = Some ?r" .
  moreover from sort_key_params[OF assms(3) assms(2) assms(4)]
  have "cache_key url qs = cache_key url ps" by (simp add: cache_key_def)
  ultimately have "cache ?w1 (cache_key url qs) = Some ?r" by simp
  then have "cache (run_fetches nw calls ?w1) (cache_key url qs) = Some ?r" by (rule run_fetches_keeps)
  then have "fetch_json nw url qs t' (run_fetches nw calls ?w1) = (?r, run_fetches nw calls ?w1)"
    by (rule fetch_json_hit)
  moreover have "gerar_todos e ibge (w\<lparr>cache := c\<rparr>) = gerar_todos e ibge (w\<lparr>cache := Map.empty\<rparr>)"
    by (simp add: gerar_todos_def clear_cache_def)
  ultimately show ?thesis by (simp add: Let_def)
qed

theorem fetch_json_repeat_is_cached_witness:
  "fetch_json rede_contador ''u'' [(''ano'', PInt 2024), (''ciclo_id'', PStr ''AI'')] 3
     (run_fetches rede_contador [(''v'', [], 3)]
        (snd (fetch_json rede_contador ''u'' [(''ciclo_id'', PStr ''AI''), (''ano'', PInt 2024)] 3
                mundo_inicial)))
   = (fst (fetch_json rede_contador ''u'' [(''ciclo_id'', PStr ''AI''), (''ano'', PInt 2024)] 3
             mundo_inicial),
      run_fetches rede_contador [(''v'', [], 3)]
        (snd (fetch_json rede_contador ''u'' [(''ciclo_id'', PStr ''AI''), (''ano'', PInt 2024)] 3
                mundo_inicial)))"
proof -
  have h1: "0 < (3::nat)" by simp
  have h2: "distinct (map fst [(''ciclo_id'', PStr ''AI''), (''ano'', PInt 2024)])" by simp
  have h3: "distinct (map fst [(''ano'', PInt 2024), (''ciclo_id'', PStr ''AI'')])" by simp
  have h4: "set [(''ano'', PInt 2024), (''ciclo_id'', PStr ''AI'')]
            = set [(''ciclo_id'', PStr ''AI''), (''ano'', PInt 2024)]" by auto
  from fetch_json_repeat_is_cached[OF h1 h2 h3 h4, of rede_contador "''u''" mundo_inicial
      "[(''v'', [], 3)]" 3]
  show ?thesis unfolding Let_def by simp
qed



section \<open>Validation of the territory code\<close>





section \<open>Trend slope\<close>






section \<open>The orchestrator\<close>

lemma gerar_arquivos_cinco:
  "gerar_arquivos e ibge mun uf slg geradores [] w1 =
     (case gerar_txt_aprendizado e ibge mun uf w1 of (r1, w2) \<Rightarrow>
      case gerar_txt_infra e ibge mun uf w2 of (r2, w3) \<Rightarrow>
      case gerar_txt_censo e ibge mun uf w3 of (r3, w4) \<Rightarrow>
      case gerar_txt_ideb e ibge mun uf w4 of (r4, w5) \<Rightarrow>
      case gerar_txt_taxa e ibge mun uf w5 of (r5, w6) \<Rightarrow>
        ([(slg @ ''_aprendizado.txt'', txt_ou_erro ''aprendizado'' r1),
          (slg @ ''_infra.txt'', txt_ou_erro ''infra'' r2),
          (slg @ ''_censo.txt'', txt_ou_erro ''censo'' r3),
          (slg @ ''_ideb.txt'', txt_ou_erro ''ideb'' r4),
          (slg @ ''_taxa_rendimento.txt'', txt_ou_erro ''taxa_rendimento'' r5)], w6))"
  by (simp add: geradores_def txt_ou_erro_def Let_def split: prod.splits)

text \<open>
  C9, as amended. Once the entity is resolved, \<open>gerar_todos\<close> runs the five renderers
  one after the other, whatever each of them does: the entry of a renderer that raised
  is the inline error text, the entry of one that returned is its text, and the five
  entries are always there. The structured collector runs after them, outside the
  \<open>try\<close> block: the bundle is returned when the collector returns, and the run raises
  when the collector raises.
\<close>

theorem renderer_failures_are_inline:
  assumes "descobrir_municipio e ibge (clear_cache w) = (Inr (JStr mun, uf), w1)"
  shows "gerar_todos e ibge w =
     (case gerar_txt_aprendizado e ibge mun uf w1 of (r1, w2) \<Rightarrow>
      case gerar_txt_infra e ibge mun uf w2 of (r2, w3) \<Rightarrow>
      case gerar_txt_censo e ibge mun uf w3 of (r3, w4) \<Rightarrow>
      case gerar_txt_ideb e ibge mun uf w4 of (r4, w5) \<Rightarrow>
      case gerar_txt_taxa e ibge mun uf w5 of (r5, w6) \<Rightarrow>
      case coletar_dados_estruturados e ibge mun uf w6 of
        (Inl x, w7) \<Rightarrow> (Inl x, w7)
      | (Inr dados, w7) \<Rightarrow>
          (Inr \<lparr>b_municipio = mun, b_uf = uf, b_ibge = ibge,
                b_arquivos =
                  [(slug mun @ ''_aprendizado.txt'', txt_ou_erro ''aprendizado'' r1),
                   (slug mun @ ''_infra.txt'', txt_ou_erro ''infra'' r2),
                   (slug mun @ ''_censo.txt'', txt_ou_erro ''censo'' r3),
                   (slug mun @ ''_ideb.txt'', txt_ou_erro ''ideb'' r4),
                   (slug mun @ ''_taxa_rendimento.txt'', txt_ou_erro ''taxa_rendimento'' r5)],
                b_dados_estruturados = dados\<rparr>, w7))"
  using assms
  by (simp add: gerar_todos_def gerar_arquivos_cinco Let_def split: prod.splits sum.splits)

theorem renderer_failures_are_inline_witness:
  "case gerar_todos env_ideb_falha ''23'' mundo_inicial of
     (Inr b, w) \<Rightarrow>
       map fst (b_arquivos b)
         = map (\<lambda>nome. ''Cear'' @ u_a_acute @ ''_'' @ nome @ ''.txt'') TIPOS_VALIDOS
       \<and> map_of (b_arquivos b) (''Cear'' @ u_a_acute @ ''_ideb.txt'')
           = Some (u_cross_mark @ '' Erro ao gerar ideb: mean'')
       \<and> list_all (\<lambda>nome. case map_of (b_arquivos b) (''Cear'' @ u_a_acute @ ''_'' @ nome @ ''.txt'') of
                             Some t \<Rightarrow> py_in ''Sem dados'' t
                           | None \<Rightarrow> False)
            [''aprendizado'', ''infra'', ''censo'', ''taxa_rendimento'']
       \<and> b_dados_estruturados b
           = [(''entidade'', JStr (''Cear'' @ u_a_acute)), (''uf'', JStr ''CE''), (''tipo'', JStr ''estado'')]
   | (Inl x, w) \<Rightarrow> False"
proof -
  have h: "descobrir_municipio env_ideb_falha ''23'' (clear_cache mundo_inicial)
             = (Inr (JStr (''Cear'' @ u_a_acute), JStr ''CE''), clear_cache mundo_inicial)"
    by (simp add: descobrir_municipio_def py_strip_def py_isspace_def UF_CODES_def Let_def)
  show ?thesis
    unfolding renderer_failures_are_inline[OF h]
    by code_simp
qed

text \<open>
  The claim as stated fails when the collector raises too: a census reply that is a JSON
  list makes \<open>fetch_censo\<close> raise in the census renderer, where it is caught, and again
  in the collector, where it is not, so no bundle is returned.
\<close>

theorem collector_failure_counterexample:
  "fst (gerar_txt_censo env_censo_lista ''23'' (''Cear'' @ u_a_acute) (JStr ''CE'') mundo_inicial)
     = Inl (Exn ''AttributeError''
              ([CHR 0x27] @ ''list'' @ [CHR 0x27] @ '' object has no attribute '' @ [CHR 0x27] @ ''get'' @ [CHR 0x27]))
   \<and> fst (gerar_todos env_censo_lista ''23'' mundo_inicial)
     = Inl (Exn ''AttributeError''
              ([CHR 0x27] @ ''list'' @ [CHR 0x27] @ '' object has no attribute '' @ [CHR 0x27] @ ''get'' @ [CHR 0x27]))"
  by code_simp



section \<open>A run in which no fetch gives data\<close>





























end
